theory Spec2Isabelle
  imports
    Complex_Main
    "HOL-Library.AList"
    "HOL-Library.Char_ord"
    "HOL-Library.List_Lexorder"
    "HOL-Library.Multiset"
    "HOL-Library.Product_Lexorder"
begin

section \<open>Errors\<close>

text \<open>
  The Python exceptions the two modules can raise, as values.  \<open>ConfigurationError\<close> and
  \<open>MissingMetadataError\<close> are the names the specification uses; no class of either name
  is defined or raised anywhere in the two source files, so no definition below returns
  them.  A result is \<open>py_error + 'a\<close>, with \<open>Inl\<close> for a raised exception.
\<close>

datatype py_error =
    KeyError | IndexError | TypeError | ValueError | ZeroDivisionError | AssertionError
  | AxisError | ConfigurationError | MissingMetadataError

text \<open>A \<open>for\<close> loop whose body may raise: the first exception ends the loop.\<close>

fun for_loop :: "('s \<Rightarrow> 'a \<Rightarrow> py_error + 's) \<Rightarrow> 's \<Rightarrow> 'a list \<Rightarrow> py_error + 's" where
  "for_loop body s [] = Inr s"
| "for_loop body s (x # xs) =
     (case body s x of Inl e \<Rightarrow> Inl e | Inr s' \<Rightarrow> for_loop body s' xs)"

text \<open>A list comprehension whose element expression may raise.\<close>

fun comprehension :: "('a \<Rightarrow> py_error + 'b) \<Rightarrow> 'a list \<Rightarrow> py_error + 'b list" where
  "comprehension f [] = Inr []"
| "comprehension f (x # xs) =
     (case f x of
        Inl e \<Rightarrow> Inl e
      | Inr y \<Rightarrow> (case comprehension f xs of Inl e \<Rightarrow> Inl e | Inr ys \<Rightarrow> Inr (y # ys)))"


section \<open>datasets.py: the inference dataset and its slice ordering\<close>

text \<open>
  A \<open>pathlib.Path\<close> is the list of its components (below the root).  Python compares
  two paths component by component, each component as a string, which is the
  lexicographic order of \<open>string list\<close>.
\<close>

type_synonym path = "string list"

text \<open>\<open>path.parent.name\<close>: the last component of the parent, empty when there is none.\<close>

definition parent_name :: "path \<Rightarrow> string" where
  "parent_name p = (if length p < 2 then [] else last (butlast p))"

text \<open>
  What \<open>pydicom.dcmread(path)\<close> yields of the tags the constructor reads.  The third
  entry of \<open>ImagePositionPatient\<close> is a float, read as a real; \<open>None\<close> is a missing
  entry (NaN) of the \<open>z_pos\<close> column.
\<close>

record dicom_header =
  SeriesDescription :: string
  PatientID :: string
  Rows :: int
  Columns :: int
  ImagePositionPatient_z :: "real option"
  AccessionNumber :: string
  SeriesNumber :: int

text \<open>
  A cell of the \<open>slice_pos\<close> column: the empty string it is initialised with, the NaN
  that \<open>Series.map\<close> gives for a value the dictionary lacks, or the rank.
\<close>

datatype cell = Blank | NaN | Rank nat

text \<open>The data frame, column by column, as the \<open>data\<close> dictionary builds it.\<close>

record dataframe =
  dcm_paths :: "path list"
  folders :: "string list"
  studies :: "string list"
  patients :: "string list"
  x_dims :: "int list"
  y_dims :: "int list"
  z_pos :: "real option list"
  acc_nums :: "string list"
  ser_nums :: "int list"
  slice_pos :: "cell list"

type_synonym group_key = "string \<times> string \<times> string \<times> int \<times> int \<times> string \<times> int"

text \<open>The value of the columns \<open>group_keys\<close> in row \<open>i\<close>.\<close>

definition group_key_of :: "dataframe \<Rightarrow> nat \<Rightarrow> group_key" where
  "group_key_of df i =
     (folders df ! i, studies df ! i, patients df ! i, x_dims df ! i, y_dims df ! i,
      acc_nums df ! i, ser_nums df ! i)"

text \<open>
  \<open>dataset.groupby(group_keys)\<close>: one group per distinct key, the groups in ascending
  key order, each group the row labels with that key in their original order.
\<close>

definition groupby :: "dataframe \<Rightarrow> (group_key \<times> nat list) list" where
  "groupby df =
     (let idx = [0..<length (dcm_paths df)] in
      map (\<lambda>k. (k, filter (\<lambda>i. group_key_of df i = k) idx))
        (sort (remdups (map (group_key_of df) idx))))"

text \<open>
  \<open>np.argsort(zs)\<close>: the positions of \<open>zs\<close> in ascending order of their values.
  Positions of equal values keep their order here; the dictionary built from the result
  does not depend on that choice.
\<close>

definition argsort :: "'a::linorder list \<Rightarrow> nat list" where
  "argsort zs = sort_key (\<lambda>i. zs ! i) [0..<length zs]"

text \<open>
  \<open>{zs[idx]: pos for idx, pos in zip(sorted_idxs, range(len(zs)))}\<close>: a later pair
  overwrites an earlier one with the same key.
\<close>

definition slice_map :: "'a::linorder list \<Rightarrow> ('a \<rightharpoonup> nat)" where
  "slice_map zs =
     fold (\<lambda>(idx, pos) m. m(zs ! idx \<mapsto> pos)) (zip (argsort zs) [0..<length zs]) Map.empty"

text \<open>\<open>group[sort_key].map(slice_map)\<close>.\<close>

definition map_series :: "'a list \<Rightarrow> ('a \<rightharpoonup> nat) \<Rightarrow> cell list" where
  "map_series zs m = map (\<lambda>v. case m v of None \<Rightarrow> NaN | Some pos \<Rightarrow> Rank pos) zs"

text \<open>
  The body of the first loop up to \<open>zs_slice_pos\<close>, for the group with row labels \<open>g\<close>:
  the sort key is \<open>z_pos\<close>, or \<open>dcm_paths\<close> as soon as one \<open>z_pos\<close> of the group is
  missing.
\<close>

definition zs_slice_pos :: "dataframe \<Rightarrow> nat list \<Rightarrow> cell list" where
  "zs_slice_pos df g =
     (if list_ex (\<lambda>i. z_pos df ! i = None) g
      then (let zs = map (\<lambda>i. dcm_paths df ! i) g in map_series zs (slice_map zs))
      else (let zs = map (\<lambda>i. the (z_pos df ! i)) g in map_series zs (slice_map zs)))"

text \<open>\<open>for i in group.index: dataset.at[i, "slice_pos"] = zs_slice_pos.get(i)\<close>.\<close>

definition write_group :: "dataframe \<Rightarrow> nat list \<Rightarrow> cell list \<Rightarrow> cell list" where
  "write_group df g col = fold (\<lambda>(i, c) col'. col'[i := c]) (zip g (zs_slice_pos df g)) col"

text \<open>The first loop over the groups: the \<open>slice_pos\<close> column it leaves.\<close>

definition assign_slice_pos :: "dataframe \<Rightarrow> cell list" where
  "assign_slice_pos df = fold (\<lambda>(k, g) col. write_group df g col) (groupby df) (slice_pos df)"

text \<open>
  The second loop, \<open>group.sort_values(by="slice_pos", inplace=True)\<close>: each group that
  \<open>groupby\<close> yields is a frame of its own, and sorting it in place reorders that frame
  only.  The function gives the row labels of every group after its sort; the
  constructor drops them, and \<open>dataset\<close> is what it was.
\<close>

definition slice_pos_order :: "cell \<Rightarrow> nat \<times> nat" where
  "slice_pos_order c = (case c of Rank pos \<Rightarrow> (0, pos) | _ \<Rightarrow> (1, 0))"

definition sorted_group_copies :: "dataframe \<Rightarrow> nat list list" where
  "sorted_group_copies df =
     map (\<lambda>(k, g). sort_key (\<lambda>i. slice_pos_order (slice_pos df ! i)) g) (groupby df)"

text \<open>The attributes of a dataset object that indexing reads.\<close>

record dataset_base =
  self_dcm_paths :: "path list"
  self_output_idx :: bool

record InferenceDataset = dataset_base +
  self_patients :: "string list"
  self_df :: dataframe

record SegmentationDataset = dataset_base +
  self_seg_patients :: "string list"
  self_label_paths :: "path list"

text \<open>
  \<open>InferenceDataset.__init__\<close>.  \<open>patient2dcm\<close> is the dictionary in insertion order
  (its keys are distinct), \<open>dcmread\<close> the header of each file.
\<close>

definition InferenceDataset_init ::
  "(path \<Rightarrow> dicom_header) \<Rightarrow> (string \<times> path list) list \<Rightarrow> bool \<Rightarrow> InferenceDataset" where
  "InferenceDataset_init dcmread patient2dcm output_idx =
     (let paths = concat (map snd patient2dcm);
          dataset = \<lparr>dcm_paths = paths,
                     folders = map parent_name paths,
                     studies = map (\<lambda>p. SeriesDescription (dcmread p)) paths,
                     patients = map (\<lambda>p. PatientID (dcmread p)) paths,
                     x_dims = map (\<lambda>p. Rows (dcmread p)) paths,
                     y_dims = map (\<lambda>p. Columns (dcmread p)) paths,
                     z_pos = map (\<lambda>p. ImagePositionPatient_z (dcmread p)) paths,
                     acc_nums = map (\<lambda>p. AccessionNumber (dcmread p)) paths,
                     ser_nums = map (\<lambda>p. SeriesNumber (dcmread p)) paths,
                     slice_pos = replicate (length paths) Blank\<rparr>;
          dataset' = dataset\<lparr>slice_pos := assign_slice_pos dataset\<rparr>;
          dropped = sorted_group_copies dataset'
      in \<lparr>self_dcm_paths = dcm_paths dataset', self_output_idx = output_idx,
          self_patients = map fst patient2dcm, self_df = dataset'\<rparr>)"


section \<open>datasets.py: indexing a dataset\<close>

text \<open>An index is an integer or a slice object, whose three fields are integers or None.\<close>

datatype py_index = Index int | Slice "int option" "int option" "int option"

text \<open>
  \<open>slice.indices(length)\<close>, as the Python reference defines it: a zero step raises
  ValueError, and start and stop are clamped to the bounds for the step's sign.
\<close>

definition clamp_bound :: "int \<Rightarrow> int \<Rightarrow> int \<Rightarrow> int \<Rightarrow> int" where
  "clamp_bound lower upper len i =
     (if i < 0 then (if i + len < lower then lower else i + len)
      else (if i > upper then upper else i))"

definition slice_indices ::
  "int option \<Rightarrow> int option \<Rightarrow> int option \<Rightarrow> nat \<Rightarrow> py_error + (int \<times> int \<times> int)" where
  "slice_indices start stop step len =
     (let st = (case step of None \<Rightarrow> 1 | Some s \<Rightarrow> s) in
      if st = 0 then Inl ValueError
      else
        (let lower = (if st < 0 then - 1 else 0);
             upper = (if st < 0 then int len - 1 else int len);
             start' = (case start of
                         None \<Rightarrow> (if st < 0 then upper else lower)
                       | Some i \<Rightarrow> clamp_bound lower upper (int len) i);
             stop' = (case stop of
                        None \<Rightarrow> (if st < 0 then lower else upper)
                      | Some i \<Rightarrow> clamp_bound lower upper (int len) i)
         in Inr (start', stop', st)))"

text \<open>\<open>range(start, stop, step)\<close> for a non-zero step, as a list.\<close>

definition py_range :: "int \<Rightarrow> int \<Rightarrow> int \<Rightarrow> int list" where
  "py_range start stop step =
     (if step > 0
      then map (\<lambda>k. start + int k * step) [0..<nat ((stop - start + step - 1) div step)]
      else map (\<lambda>k. start + int k * step) [0..<nat ((start - stop - step - 1) div (- step))])"

text \<open>\<open>xs[i]\<close> on a list: a negative index counts from the end, out of range raises.\<close>

definition list_getitem :: "'a list \<Rightarrow> int \<Rightarrow> py_error + 'a" where
  "list_getitem xs i =
     (let n = int (length xs); j = (if i < 0 then i + n else i)
      in if 0 \<le> j \<and> j < n then Inr (xs ! nat j) else Inl IndexError)"

text \<open>
  \<open>__getitem__\<close> at an integer index.  \<open>load\<close> stands for everything between the path
  lookup and the return (decoding, normalisation, augmentation, channel stacking; for
  the segmentation dataset also the label and its mask); it may raise.  With
  \<open>output_idx\<close> the index is returned beside the sample.
\<close>

definition getitem_int ::
  "(path \<Rightarrow> py_error + 'smp) \<Rightarrow> 'a dataset_base_scheme \<Rightarrow> int \<Rightarrow> py_error + ('smp \<times> int option)" where
  "getitem_int load self i =
     (case list_getitem (self_dcm_paths self) i of
        Inl e \<Rightarrow> Inl e
      | Inr im_path \<Rightarrow>
          (case load im_path of
             Inl e \<Rightarrow> Inl e
           | Inr smp \<Rightarrow> Inr (smp, if self_output_idx self then Some i else None)))"

datatype 'a getitem_result = One 'a | Many "'a list"

text \<open>
  \<open>__getitem__\<close>, the same two first lines in both classes:
  \<open>if isinstance(index, slice): return [self[ii] for ii in range(*index.indices(len(self)))]\<close>.
\<close>

definition getitem ::
  "(path \<Rightarrow> py_error + 'smp) \<Rightarrow> 'a dataset_base_scheme \<Rightarrow> py_index
     \<Rightarrow> py_error + ('smp \<times> int option) getitem_result" where
  "getitem load self ix =
     (case ix of
        Slice start stop step \<Rightarrow>
          (case slice_indices start stop step (length (self_dcm_paths self)) of
             Inl e \<Rightarrow> Inl e
           | Inr (a, b, c) \<Rightarrow>
               (case comprehension (getitem_int load self) (py_range a b c) of
                  Inl e \<Rightarrow> Inl e
                | Inr smps \<Rightarrow> Inr (Many smps)))
      | Index i \<Rightarrow>
          (case getitem_int load self i of Inl e \<Rightarrow> Inl e | Inr smp \<Rightarrow> Inr (One smp)))"

definition SegmentationDataset_getitem ::
  "(path \<Rightarrow> py_error + 'smp) \<Rightarrow> SegmentationDataset \<Rightarrow> py_index
     \<Rightarrow> py_error + ('smp \<times> int option) getitem_result" where
  "SegmentationDataset_getitem load self ix = getitem load self ix"

definition InferenceDataset_getitem ::
  "(path \<Rightarrow> py_error + 'smp) \<Rightarrow> InferenceDataset \<Rightarrow> py_index
     \<Rightarrow> py_error + ('smp \<times> int option) getitem_result" where
  "InferenceDataset_getitem load self ix = getitem load self ix"


section \<open>datasets.py: the persisted-split resolver\<close>

text \<open>
  \<open>JsonDatasetGetter.__init__\<close> from the loaded JSON object on: \<open>dataset_split\<close> is the
  object \<open>json.load\<close> returned (split name to patient IDs), \<open>dcm2attribs\<close> and
  \<open>patient2dcm\<close> what \<open>make_dcmdicts\<close> returned, and \<open>patient_filter\<close> the call of
  \<open>PatientFiltering(self.patient_IDS)\<close>, whose class is imported from another module.
  \<open>dataset_split[splitter_key]\<close> is a dictionary lookup: a missing key raises KeyError.
\<close>

record ('a, 'd) JsonDatasetGetter =
  self_patient_IDS :: "string list"
  self_dcm2attribs :: 'a
  self_patient2dcm :: 'd

definition JsonDatasetGetter_init ::
  "(string list \<Rightarrow> 'a \<Rightarrow> 'd \<Rightarrow> 'a \<times> 'd) \<Rightarrow> 'a \<Rightarrow> 'd \<Rightarrow> (string \<rightharpoonup> string list) \<Rightarrow> string
     \<Rightarrow> py_error + ('a, 'd) JsonDatasetGetter" where
  "JsonDatasetGetter_init patient_filter dcm2attribs patient2dcm dataset_split splitter_key =
     (case dataset_split splitter_key of
        None \<Rightarrow> Inl KeyError
      | Some patient_IDS \<Rightarrow>
          (let (a, d) = patient_filter patient_IDS dcm2attribs patient2dcm
           in Inr \<lparr>self_patient_IDS = patient_IDS, self_dcm2attribs = a, self_patient2dcm = d\<rparr>))"


section \<open>evaluate_patients_notebook.py: values, dictionaries and arrays\<close>

text \<open>
  A value of an attribute dictionary, as \<open>json.load\<close> builds it.  Python's integers and
  floats are both read as reals: rounding, the infinities and NaN are not represented,
  and an integer is the real of the same value.  A boolean counts as 0 or 1 in
  arithmetic, as in Python.
\<close>

datatype pyval =
    PNone | PBool bool | PNum real | PStr string | PList "pyval list"
  | PDict "(string \<times> pyval) list"

type_synonym attrib_dict = "string \<rightharpoonup> pyval"

definition num_of :: "pyval \<Rightarrow> real option" where
  "num_of v = (case v of PNum r \<Rightarrow> Some r | PBool b \<Rightarrow> Some (of_bool b) | _ \<Rightarrow> None)"

text \<open>
  \<open>v[0]\<close>: the first element of a list, the first character of a string; an empty
  sequence raises IndexError, a JSON object has no key \<open>0\<close>, anything else is not
  subscriptable.
\<close>

definition py_getitem0 :: "pyval \<Rightarrow> py_error + pyval" where
  "py_getitem0 v =
     (case v of
        PList [] \<Rightarrow> Inl IndexError
      | PList (x # _) \<Rightarrow> Inr x
      | PStr [] \<Rightarrow> Inl IndexError
      | PStr (c # _) \<Rightarrow> Inr (PStr [c])
      | PDict _ \<Rightarrow> Inl KeyError
      | _ \<Rightarrow> Inl TypeError)"

text \<open>\<open>v ** 2\<close> and \<open>a / b\<close> on numbers.\<close>

definition py_pow2 :: "pyval \<Rightarrow> py_error + real" where
  "py_pow2 v = (case num_of v of None \<Rightarrow> Inl TypeError | Some r \<Rightarrow> Inr (r ^ 2))"

definition py_truediv :: "real \<Rightarrow> real \<Rightarrow> py_error + real" where
  "py_truediv a b = (if b = 0 then Inl ZeroDivisionError else Inr (a / b))"

text \<open>\<open>a + b\<close>: two strings or two lists are concatenated, two numbers added.\<close>

definition py_add :: "pyval \<Rightarrow> pyval \<Rightarrow> py_error + pyval" where
  "py_add a b =
     (case (a, b) of
        (PStr s, PStr t) \<Rightarrow> Inr (PStr (s @ t))
      | (PList xs, PList ys) \<Rightarrow> Inr (PList (xs @ ys))
      | _ \<Rightarrow> (case (num_of a, num_of b) of
                (Some x, Some y) \<Rightarrow> Inr (PNum (x + y))
              | _ \<Rightarrow> Inl TypeError))"

text \<open>A list or a dictionary cannot be the key of a dictionary.\<close>

definition hashable :: "pyval \<Rightarrow> bool" where
  "hashable v = (case v of PList _ \<Rightarrow> False | PDict _ \<Rightarrow> False | _ \<Rightarrow> True)"

text \<open>
  A numpy array: its shape and its elements in row-major order.  The arrays of the
  notebook are float arrays; their elements are read as reals.
\<close>

record ndarray =
  shape :: "nat list"
  data :: "real list"

text \<open>\<open>np.stack(arrays)\<close>: an empty list raises ValueError, and so do unequal shapes.\<close>

definition np_stack :: "ndarray list \<Rightarrow> py_error + ndarray" where
  "np_stack arrays =
     (case arrays of
        [] \<Rightarrow> Inl ValueError
      | a # rest \<Rightarrow>
          if list_all (\<lambda>b. shape b = shape a) rest
          then Inr \<lparr>shape = length arrays # shape a, data = concat (map data arrays)\<rparr>
          else Inl ValueError)"

text \<open>\<open>np.moveaxis(arr, 0, -1)\<close>: the first axis becomes the last.\<close>

definition np_moveaxis_first_last :: "ndarray \<Rightarrow> py_error + ndarray" where
  "np_moveaxis_first_last a =
     (case shape a of
        [] \<Rightarrow> Inl AxisError
      | n # rest \<Rightarrow>
          (let r = prod_list rest in
           Inr \<lparr>shape = rest @ [n],
                data = concat (map (\<lambda>j. map (\<lambda>i. data a ! (i * r + j)) [0..<n]) [0..<r])\<rparr>))"

text \<open>\<open>np.moveaxis(arr, -1, 0)\<close>: the last axis becomes the first.\<close>

definition np_moveaxis_last_first :: "ndarray \<Rightarrow> py_error + ndarray" where
  "np_moveaxis_last_first a =
     (case shape a of
        [] \<Rightarrow> Inl AxisError
      | _ # _ \<Rightarrow>
          (let n = last (shape a); rest = butlast (shape a); r = prod_list rest in
           Inr \<lparr>shape = n # rest,
                data = concat (map (\<lambda>i. map (\<lambda>j. data a ! (j * n + i)) [0..<r]) [0..<n])\<rparr>))"

text \<open>\<open>np.squeeze(arr)\<close>: every axis of length 1 is removed.\<close>

definition np_squeeze :: "ndarray \<Rightarrow> ndarray" where
  "np_squeeze a = \<lparr>shape = filter (\<lambda>d. d \<noteq> 1) (shape a), data = data a\<rparr>"

text \<open>\<open>np.expand_dims(arr, axis=1)\<close>.\<close>

definition np_expand_dims_1 :: "ndarray \<Rightarrow> py_error + ndarray" where
  "np_expand_dims_1 a =
     (case shape a of
        [] \<Rightarrow> Inl AxisError
      | n # rest \<Rightarrow> Inr \<lparr>shape = n # 1 # rest, data = data a\<rparr>)"

text \<open>\<open>np.mean(arr, axis=0)\<close>.\<close>

definition np_mean_axis0 :: "ndarray \<Rightarrow> py_error + ndarray" where
  "np_mean_axis0 a =
     (case shape a of
        [] \<Rightarrow> Inl AxisError
      | m # rest \<Rightarrow>
          (let r = prod_list rest in
           Inr \<lparr>shape = rest,
                data = map (\<lambda>j. sum_list (map (\<lambda>i. data a ! (i * r + j)) [0..<m]) / real m)
                         [0..<r]\<rparr>))"

text \<open>
  \<open>np.std(arr)\<close> with no axis: the population standard deviation of all elements of the
  array.  (Of an array with no element numpy gives NaN, which is outside this model.)
\<close>

definition np_std :: "ndarray \<Rightarrow> real" where
  "np_std a =
     (let xs = data a; n = real (length xs); mu = sum_list xs / n
      in sqrt (sum_list (map (\<lambda>x. (x - mu) ^ 2) xs) / n))"


section \<open>evaluate_patients_notebook.py: the statistics of one exam\<close>

text \<open>
  Modelled from the spec: the class \<open>SigmoidBinarize\<close> of
  \<open>adpkd_segmentation.utils.losses\<close>, which is not among the source files.  The
  specification says: binarization via a fixed-threshold sigmoid rule, threshold 0.5,
  mapping a continuous prediction to a binary mask.  An element becomes 1 when its
  sigmoid exceeds the threshold and 0 otherwise; the specification does not say which
  way an element exactly at the threshold goes, and it is taken as 0 here.
\<close>

definition sigmoid :: "real \<Rightarrow> real" where
  "sigmoid x = 1 / (1 + exp (- x))"

definition SigmoidBinarize :: "real \<Rightarrow> ndarray \<Rightarrow> ndarray" where
  "SigmoidBinarize threshold a =
     a\<lparr>data := map (\<lambda>x. if sigmoid x > threshold then 1 else 0) (data a)\<rparr>"

text \<open>
  Modelled from the spec: the class \<open>Dice\<close> of \<open>adpkd_segmentation.utils.losses\<close>, which
  is not among the source files, as the notebook calls it (\<open>use_as_loss=False\<close>, all four
  axes reduced jointly).  The specification says:
  Dice = (2 |P \<inter> G| + \<epsilon>) / (|P| + |G| + \<epsilon>), between the binarized prediction volume and
  the ground-truth volume, with intersection and union computed as elementwise products
  and sums over all voxel positions jointly, using a configurable smoothing power.
  \<open>epsilon\<close> is the smoothing constant of the class, which the notebook leaves at its
  default, and \<open>pow\<close> the argument \<open>power\<close>, which the notebook sets to 1.  The
  elementwise products pair the voxels of two volumes of the same shape; for volumes of
  different shapes the tensor library broadcasts or raises, the specification is silent
  there, and the theorems below are about volumes of one shape.
\<close>

definition Dice :: "(ndarray \<Rightarrow> ndarray) \<Rightarrow> real \<Rightarrow> nat \<Rightarrow> ndarray \<Rightarrow> ndarray \<Rightarrow> real" where
  "Dice pred_process epsilon pow input target =
     (let p = data (pred_process input); g = data target;
          intersection = sum_list (map (\<lambda>(x, y). x * y) (zip p g));
          set_add = sum_list (map (\<lambda>x. x ^ pow) p) + sum_list (map (\<lambda>y. y ^ pow) g)
      in (2 * intersection + epsilon) / (set_add + epsilon))"

text \<open>
  \<open>(attrib_dict["dim"][0] ** 2) / (attrib_dict["transform_resize_dim"][0] ** 2)\<close>, in
  Python's order of evaluation.
\<close>

definition scale_factor_of :: "attrib_dict \<Rightarrow> py_error + real" where
  "scale_factor_of attrib_dict =
     (case attrib_dict ''dim'' of
        None \<Rightarrow> Inl KeyError
      | Some dims \<Rightarrow>
     (case py_getitem0 dims of
        Inl e \<Rightarrow> Inl e
      | Inr dims0 \<Rightarrow>
     (case py_pow2 dims0 of
        Inl e \<Rightarrow> Inl e
      | Inr num \<Rightarrow>
     (case attrib_dict ''transform_resize_dim'' of
        None \<Rightarrow> Inl KeyError
      | Some resize_dim \<Rightarrow>
     (case py_getitem0 resize_dim of
        Inl e \<Rightarrow> Inl e
      | Inr resize_dim0 \<Rightarrow>
     (case py_pow2 resize_dim0 of
        Inl e \<Rightarrow> Inl e
      | Inr den \<Rightarrow> py_truediv num den))))))"

text \<open>
  \<open>exam_preds_to_stat\<close>.  Dictionaries are objects: \<open>h\<close> is the store of the dictionary
  objects, \<open>attrib_dict\<close> the reference (an index of the store) the caller passes, and the
  result is the store after \<open>attrib_dict.update\<close> with the reference the function
  returns.  \<open>torch.sum(pred_process(...)).item()\<close> is the sum of all elements of the
  processed volume.
\<close>

definition exam_preds_to_stat ::
  "real \<Rightarrow> attrib_dict list \<Rightarrow> ndarray \<Rightarrow> ndarray \<Rightarrow> (ndarray \<Rightarrow> ndarray) \<Rightarrow> nat \<Rightarrow> pyval
     \<Rightarrow> py_error + (attrib_dict list \<times> nat)" where
  "exam_preds_to_stat epsilon h pred_vol ground_vol pred_process attrib_dict pred_std =
     (let d = h ! attrib_dict;
          dice_val = Dice pred_process epsilon 1 pred_vol ground_vol
      in
      case scale_factor_of d of
        Inl e \<Rightarrow> Inl e
      | Inr scale_factor \<Rightarrow>
     (let pred_pixel_count = sum_list (data (pred_process pred_vol)) in
      case d ''vox_vol'' of
        None \<Rightarrow> Inl KeyError
      | Some vv \<Rightarrow>
     (case num_of vv of
        None \<Rightarrow> Inl TypeError
      | Some vox_vol \<Rightarrow>
     (let volume_pred = scale_factor * vox_vol * pred_pixel_count;
          ground_pixel_count = sum_list (data (pred_process ground_vol));
          volume_ground = scale_factor * vox_vol * ground_pixel_count
      in
      case d ''patient'' of
        None \<Rightarrow> Inl KeyError
      | Some patient \<Rightarrow>
     (case d ''MR'' of
        None \<Rightarrow> Inl KeyError
      | Some mr \<Rightarrow>
     (case py_add patient mr of
        Inl e \<Rightarrow> Inl e
      | Inr study \<Rightarrow>
          Inr (h[attrib_dict := d(''TKV_GT'' \<mapsto> PNum volume_ground,
                                  ''TKV_Pred'' \<mapsto> PNum volume_pred,
                                  ''patient_dice'' \<mapsto> PNum dice_val,
                                  ''study'' \<mapsto> study,
                                  ''scale_factor'' \<mapsto> PNum scale_factor,
                                  ''Pred_stdev'' \<mapsto> pred_std)],
               attrib_dict)))))))"


section \<open>evaluate_patients_notebook.py: the ensemble\<close>

text \<open>
  \<open>resized_stack(numpy_list)\<close> with \<open>dsize=None\<close>.  \<open>cv2_resize\<close> stands for
  \<open>cv2.resize(src, dsize, interpolation=cv2.INTER_CUBIC)\<close> of the OpenCV library.
\<close>

definition reshape :: "ndarray \<Rightarrow> py_error + ndarray" where
  "reshape arr =
     (case np_moveaxis_first_last arr of Inl e \<Rightarrow> Inl e | Inr moved \<Rightarrow> Inr (np_squeeze moved))"

definition resized_stack ::
  "(ndarray \<Rightarrow> nat list \<Rightarrow> py_error + ndarray) \<Rightarrow> ndarray list \<Rightarrow> py_error + ndarray" where
  "resized_stack cv2_resize numpy_list =
     (case numpy_list of
        [] \<Rightarrow> Inl IndexError
      | first # _ \<Rightarrow>
          if length (shape first) < 2 then Inl IndexError
          else if shape first ! 1 \<noteq> 1 then Inl AssertionError
          else if length (shape first) < 4 then Inl IndexError
          else if shape first ! 2 \<noteq> shape first ! 3 then Inl AssertionError
          else
            (case comprehension reshape numpy_list of
               Inl e \<Rightarrow> Inl e
             | Inr reshaped \<Rightarrow>
                 (let dsize = take 2 (shape (hd reshaped)) in
                  case comprehension (\<lambda>src. cv2_resize src dsize) reshaped of
                    Inl e \<Rightarrow> Inl e
                  | Inr resized \<Rightarrow> np_stack resized)))"

text \<open>
  What \<open>sorted(study_dir.glob(...))\<close> and the loads give for one study directory: the
  arrays of the image, prediction and ground-truth files and the dictionaries of the
  attribute files, each in file-name order.
\<close>

record study_dir =
  imgs :: "ndarray list"
  preds :: "ndarray list"
  grounds :: "ndarray list"
  attribs :: "attrib_dict list"

text \<open>
  The state of \<open>compute_inference_stats\<close>: the store of dictionary objects and the five
  dictionaries of the function, in insertion order.  A summary is a reference into the
  store.
\<close>

record stats =
  dicts :: "attrib_dict list"
  Metric_data :: "(pyval \<times> nat) list"
  Combined_metric_data :: "(pyval \<times> nat) list"
  all_pred_vol :: "(pyval \<times> ndarray list) list"
  all_ground_vol :: "(pyval \<times> ndarray list) list"
  all_summaries :: "(pyval \<times> nat list) list"

text \<open>\<open>d[k].append(v)\<close> on a \<open>defaultdict(list)\<close>.\<close>

definition dd_append :: "'k \<Rightarrow> 'v \<Rightarrow> ('k \<times> 'v list) list \<Rightarrow> ('k \<times> 'v list) list" where
  "dd_append k v d = AList.update k ((case map_of d k of None \<Rightarrow> [] | Some vs \<Rightarrow> vs) @ [v]) d"

text \<open>\<open>d[k][0]\<close> on a \<open>defaultdict(list)\<close>: a missing key gives the empty list.\<close>

definition dd_first :: "('k \<times> 'v list) list \<Rightarrow> 'k \<Rightarrow> py_error + 'v" where
  "dd_first d k =
     (case map_of d k of None \<Rightarrow> Inl IndexError | Some [] \<Rightarrow> Inl IndexError | Some (v # _) \<Rightarrow> Inr v)"

text \<open>
  The body of the loop over the study directories of one model (\<open>display\<close> is False).
  The dictionary of the first attribute file becomes a new object of the store.
\<close>

definition process_study ::
  "real \<Rightarrow> (ndarray \<Rightarrow> ndarray) \<Rightarrow> stats \<Rightarrow> study_dir \<Rightarrow> py_error + stats" where
  "process_study epsilon pred_process st sd =
     (case np_stack (imgs sd) of
        Inl e \<Rightarrow> Inl e
      | Inr img_vol \<Rightarrow>
     (case np_stack (preds sd) of
        Inl e \<Rightarrow> Inl e
      | Inr pred_vol \<Rightarrow>
     (case np_stack (grounds sd) of
        Inl e \<Rightarrow> Inl e
      | Inr ground_vol \<Rightarrow>
     (case attribs sd of
        [] \<Rightarrow> Inl IndexError
      | attribs0 # _ \<Rightarrow>
     (case exam_preds_to_stat epsilon (dicts st @ [attribs0]) pred_vol ground_vol pred_process
             (length (dicts st)) PNone of
        Inl e \<Rightarrow> Inl e
      | Inr (h, summary) \<Rightarrow>
     (case (h ! summary) ''study'' of
        None \<Rightarrow> Inl KeyError
      | Some study \<Rightarrow>
          if \<not> hashable study then Inl TypeError
          else Inr (st\<lparr>dicts := h,
                       Metric_data := AList.update study summary (Metric_data st),
                       all_pred_vol := dd_append study pred_vol (all_pred_vol st),
                       all_ground_vol := dd_append study ground_vol (all_ground_vol st),
                       all_summaries := dd_append study summary (all_summaries st)\<rparr>)))))))"

text \<open>
  The body of the loop over \<open>all_pred_vol.items()\<close>.  (The stacked array the loop stores
  back under the key is read by this iteration only and is not kept in the state.)
\<close>

definition combine_study ::
  "(ndarray \<Rightarrow> nat list \<Rightarrow> py_error + ndarray) \<Rightarrow> real \<Rightarrow> (ndarray \<Rightarrow> ndarray) \<Rightarrow> stats
     \<Rightarrow> pyval \<times> ndarray list \<Rightarrow> py_error + stats" where
  "combine_study cv2_resize epsilon pred_process st item =
     (case resized_stack cv2_resize (snd item) of
        Inl e \<Rightarrow> Inl e
      | Inr stacked \<Rightarrow>
     (case np_mean_axis0 stacked of
        Inl e \<Rightarrow> Inl e
      | Inr mean_vol \<Rightarrow>
     (case np_moveaxis_last_first mean_vol of
        Inl e \<Rightarrow> Inl e
      | Inr moved \<Rightarrow>
     (case np_expand_dims_1 moved of
        Inl e \<Rightarrow> Inl e
      | Inr pred_vol \<Rightarrow>
     (case dd_first (all_ground_vol st) (fst item) of
        Inl e \<Rightarrow> Inl e
      | Inr ground_vol \<Rightarrow>
     (case dd_first (all_summaries st) (fst item) of
        Inl e \<Rightarrow> Inl e
      | Inr first_summary \<Rightarrow>
     (case exam_preds_to_stat epsilon (dicts st) pred_vol ground_vol pred_process first_summary
             (PNum (np_std stacked)) of
        Inl e \<Rightarrow> Inl e
      | Inr (h, summary) \<Rightarrow>
     (case (h ! summary) ''study'' of
        None \<Rightarrow> Inl KeyError
      | Some study \<Rightarrow>
          if \<not> hashable study then Inl TypeError
          else Inr (st\<lparr>dicts := h,
                       Combined_metric_data :=
                         AList.update study summary (Combined_metric_data st)\<rparr>)))))))))"

text \<open>
  \<open>compute_inference_stats\<close> with \<open>output=False\<close> and \<open>display=False\<close>:
  \<open>model_inferences\<close> is the list of model directories, each the list of its study
  directories as the glob yields them.  The result is the final state, or the exception
  that ended the run.
\<close>

definition initial_stats :: stats where
  "initial_stats =
     \<lparr>dicts = [], Metric_data = [], Combined_metric_data = [],
      all_pred_vol = [], all_ground_vol = [], all_summaries = []\<rparr>"

definition compute_inference_stats ::
  "(ndarray \<Rightarrow> nat list \<Rightarrow> py_error + ndarray) \<Rightarrow> real \<Rightarrow> study_dir list list \<Rightarrow> py_error + stats" where
  "compute_inference_stats cv2_resize epsilon model_inferences =
     (let pred_process = SigmoidBinarize (1 / 2) in
      case for_loop (\<lambda>st model_dir. for_loop (process_study epsilon pred_process) st model_dir)
             initial_stats model_inferences of
        Inl e \<Rightarrow> Inl e
      | Inr st \<Rightarrow> for_loop (combine_study cv2_resize epsilon pred_process) st (all_pred_vol st))"


section \<open>Auxiliary definitions and concrete inputs\<close>


text \<open>
  A concrete input: two patients, five files.  The three files of folder \<open>MR1\<close> have the
  z-positions 30, 10 and 20 in path order; of the two files of folder \<open>MR2\<close>,
  \<open>b.dcm\<close> comes first in the patient's list and has no z-position.
\<close>

definition example_dcmread :: "path \<Rightarrow> dicom_header" where
  "example_dcmread p =
     \<lparr>SeriesDescription = ''T2'',
      PatientID = (if hd p = ''MR1'' then ''p1'' else ''p2''),
      Rows = 256, Columns = 256,
      ImagePositionPatient_z =
        (if p = [''MR1'', ''a.dcm''] then Some 30
         else if p = [''MR1'', ''b.dcm''] then Some 10
         else if p = [''MR1'', ''c.dcm''] then Some 20
         else if p = [''MR2'', ''a.dcm''] then Some 5
         else None),
      AccessionNumber = ''A1'', SeriesNumber = 3\<rparr>"

definition example_patient2dcm :: "(string \<times> path list) list" where
  "example_patient2dcm =
     [(''p1'', [[''MR1'', ''a.dcm''], [''MR1'', ''b.dcm''], [''MR1'', ''c.dcm'']]),
      (''p2'', [[''MR2'', ''b.dcm''], [''MR2'', ''a.dcm'']])]"


text \<open>A segmentation dataset of three files, without \<open>output_idx\<close>.\<close>

definition example_segmentation :: SegmentationDataset where
  "example_segmentation =
     \<lparr>self_dcm_paths = [[''MR1'', ''a.dcm''], [''MR1'', ''b.dcm''], [''MR1'', ''c.dcm'']],
      self_output_idx = False, self_seg_patients = [''p1''],
      self_label_paths = [[''MR1'', ''a.png''], [''MR1'', ''b.png''], [''MR1'', ''c.png'']]\<rparr>"

text \<open>
  A concrete study: the attributes of its first slice (512 rows, resized to 256, voxel
  volume 2), the same attributes for an identity resize, and its prediction and
  ground-truth volumes of two 2 x 2 slices.
\<close>

definition example_attribs :: attrib_dict where
  "example_attribs =
     [''patient'' \<mapsto> PStr ''WC-1'', ''MR'' \<mapsto> PStr ''MR1'',
      ''dim'' \<mapsto> PList [PNum 512, PNum 512],
      ''transform_resize_dim'' \<mapsto> PList [PNum 256, PNum 256],
      ''vox_vol'' \<mapsto> PNum 2]"

definition example_attribs_identity :: attrib_dict where
  "example_attribs_identity =
     example_attribs(''dim'' \<mapsto> PList [PNum 256, PNum 256])"

definition example_pred_vol :: ndarray where
  "example_pred_vol = \<lparr>shape = [2, 1, 2, 2], data = [1, - 1, 1, - 1, - 1, 1, 1, - 1]\<rparr>"

definition example_ground_vol :: ndarray where
  "example_ground_vol = \<lparr>shape = [2, 1, 2, 2], data = [1, 0, 1, 0, 0, 1, 0, 0]\<rparr>"

definition example_empty_vol :: ndarray where
  "example_empty_vol = \<lparr>shape = [2, 1, 2, 2], data = [0, 0, 0, 0, 0, 0, 0, 0]\<rparr>"

definition example_study :: study_dir where
  "example_study =
     \<lparr>imgs = [\<lparr>shape = [1, 2, 2], data = [0, 0, 0, 0]\<rparr>, \<lparr>shape = [1, 2, 2], data = [0, 0, 0, 0]\<rparr>],
      preds = [\<lparr>shape = [1, 2, 2], data = [1, - 1, 1, - 1]\<rparr>,
               \<lparr>shape = [1, 2, 2], data = [- 1, 1, 1, - 1]\<rparr>],
      grounds = [\<lparr>shape = [1, 2, 2], data = [1, 0, 1, 0]\<rparr>,
                 \<lparr>shape = [1, 2, 2], data = [0, 1, 0, 0]\<rparr>],
      attribs = [example_attribs, example_attribs]\<rparr>"

definition example_empty_study :: study_dir where
  "example_empty_study = \<lparr>imgs = [], preds = [], grounds = [], attribs = []\<rparr>"

text \<open>
  The summary of the example study: of the 8 voxels, 4 are positive in the binarized
  prediction and 3 in the ground truth, 3 in both; the scale factor is 4 and the voxel
  volume 2.
\<close>

definition example_summary :: "real \<Rightarrow> pyval \<Rightarrow> attrib_dict" where
  "example_summary epsilon pred_std =
     example_attribs(''TKV_GT'' \<mapsto> PNum 24, ''TKV_Pred'' \<mapsto> PNum 32,
       ''patient_dice'' \<mapsto> PNum ((6 + epsilon) / (7 + epsilon)),
       ''study'' \<mapsto> PStr ''WC-1MR1'', ''scale_factor'' \<mapsto> PNum 4,
       ''Pred_stdev'' \<mapsto> pred_std)"

text \<open>The state after the loop over two models that both hold the example study, and the final state.\<close>

definition example_stats_models :: "real \<Rightarrow> stats" where
  "example_stats_models epsilon =
     \<lparr>dicts = [example_summary epsilon PNone, example_summary epsilon PNone],
      Metric_data = [(PStr ''WC-1MR1'', 1)],
      Combined_metric_data = [],
      all_pred_vol = [(PStr ''WC-1MR1'', [example_pred_vol, example_pred_vol])],
      all_ground_vol = [(PStr ''WC-1MR1'', [example_ground_vol, example_ground_vol])],
      all_summaries = [(PStr ''WC-1MR1'', [0, 1])]\<rparr>"

definition example_stats_final :: "real \<Rightarrow> stats" where
  "example_stats_final epsilon =
     (example_stats_models epsilon)
       \<lparr>dicts := [example_summary epsilon (PNum 1), example_summary epsilon PNone],
        Combined_metric_data := [(PStr ''WC-1MR1'', 0)]\<rparr>"


section \<open>Theorems\<close>

subsection \<open>The persisted-split resolver and a missing split key\<close>

text \<open>
  C7, as the specification states it: a \<open>splitter_key\<close> that is no key of the loaded
  split object makes construction fail with a ConfigurationError.  The code fails there
  with the KeyError of the dictionary lookup; here the split file holds only
  \<open>TRAIN\<close> and the key asked for is \<open>VAL\<close>.
\<close>

theorem JsonDatasetGetter_missing_key_counterexample:
  "JsonDatasetGetter_init (\<lambda>ids (a::unit) (d::unit). (a, d)) () ()
     [''TRAIN'' \<mapsto> [''p1'', ''p2'']] ''VAL'' \<noteq> Inl ConfigurationError"
  by (simp add: JsonDatasetGetter_init_def)

text \<open>
  C7, amended: a \<open>splitter_key\<close> that is no key of the loaded split object makes
  construction fail with a KeyError, whatever the other arguments are.
\<close>

theorem JsonDatasetGetter_missing_key:
  assumes "splitter_key \<notin> dom dataset_split"
  shows "JsonDatasetGetter_init patient_filter dcm2attribs patient2dcm dataset_split splitter_key
           = Inl KeyError"
  using assms by (simp add: JsonDatasetGetter_init_def domIff)

theorem JsonDatasetGetter_missing_key_witness:
  "''VAL'' \<notin> dom [''TRAIN'' \<mapsto> [''p1'', ''p2'']] \<and>
   JsonDatasetGetter_init (\<lambda>ids (a::unit) (d::unit). (a, d)) () ()
     [''TRAIN'' \<mapsto> [''p1'', ''p2'']] ''VAL'' = Inl KeyError"
proof -
  have h: "''VAL'' \<notin> dom [''TRAIN'' \<mapsto> [''p1'', ''p2'']]"
    by simp
  show ?thesis
    using h JsonDatasetGetter_missing_key [OF h] by simp
qed


subsection \<open>Slice ranks\<close>


lemma length_argsort: "length (argsort zs) = length zs"
  by (simp add: argsort_def)










lemma fold_update_length:
  "length (fold (\<lambda>(i, c) col'. col'[i := c]) ps col) = length col"
  by (induction ps arbitrary: col) (auto simp: case_prod_unfold)



lemma write_group_length: "length (write_group df g col) = length col"
  by (simp add: write_group_def fold_update_length)







lemma groupby_covers:
  assumes "i < length (dcm_paths df)"
  shows "\<exists>k g. (k, g) \<in> set (groupby df) \<and> i \<in> set g"
proof -
  let ?k = "group_key_of df i"
  let ?g = "filter (\<lambda>j. group_key_of df j = ?k) [0..<length (dcm_paths df)]"
  have "(?k, ?g) \<in> set (groupby df)"
    using assms by (force simp: groupby_def Let_def image_iff)
  moreover have "i \<in> set ?g" using assms by simp
  ultimately show ?thesis by blast
qed


lemma loop_length:
  "length (fold (\<lambda>(k, g) col. write_group df g col) gs col) = length col"
  by (induction gs arbitrary: col) (auto simp: write_group_length)




lemma init_dcm_paths:
  "self_dcm_paths (InferenceDataset_init dcmread patient2dcm output_idx) = concat (map snd patient2dcm)"
  by (simp add: InferenceDataset_init_def Let_def)

lemma init_output_idx:
  "self_output_idx (InferenceDataset_init dcmread patient2dcm output_idx) = output_idx"
  by (simp add: InferenceDataset_init_def Let_def)

lemma group_key_of_slice_pos [simp]: "group_key_of (df\<lparr>slice_pos := c\<rparr>) = group_key_of df"
  by (rule ext) (simp add: group_key_of_def)

lemma groupby_slice_pos [simp]: "groupby (df\<lparr>slice_pos := c\<rparr>) = groupby df"
  by (simp add: groupby_def)

lemma zs_slice_pos_slice_pos [simp]: "zs_slice_pos (df\<lparr>slice_pos := c\<rparr>) g = zs_slice_pos df g"
  by (simp add: zs_slice_pos_def)













subsection \<open>Indexing with a slice\<close>

lemma slice_indices_ok:
  assumes "step \<noteq> Some 0"
  shows "\<exists>a b c. slice_indices start stop step len = Inr (a, b, c) \<and> c \<noteq> 0 \<and>
           (0 < c \<longrightarrow> 0 \<le> a \<and> b \<le> int len) \<and>
           (c < 0 \<longrightarrow> - 1 \<le> b \<and> a \<le> int len - 1)"
  using assms
  by (auto simp: slice_indices_def clamp_bound_def Let_def split: option.splits)

lemma div_times_le: "0 < (c::int) \<Longrightarrow> c * (x div c) \<le> x"
  using mult_div_mod_eq [of c x] pos_mod_sign [of c x] by linarith

lemma py_range_pos_bounds:
  assumes "0 < c" "i \<in> set (py_range a b c)"
  shows "a \<le> i \<and> i < b"
proof -
  from assms obtain k where k: "k < nat ((b - a + c - 1) div c)" "i = a + int k * c"
    by (auto simp: py_range_def)
  have "int k + 1 \<le> (b - a + c - 1) div c" using k(1) by linarith
  then have "c * (int k + 1) \<le> c * ((b - a + c - 1) div c)"
    using assms(1) by (intro mult_left_mono) auto
  also have "\<dots> \<le> b - a + c - 1" using assms(1) by (rule div_times_le)
  finally have "c * int k < b - a" by (simp add: algebra_simps)
  moreover have "0 \<le> int k * c" using assms(1) by simp
  ultimately show ?thesis using k(2) by (simp add: algebra_simps)
qed

lemma py_range_neg_bounds:
  assumes "c < 0" "i \<in> set (py_range a b c)"
  shows "b < i \<and> i \<le> a"
proof -
  from assms obtain k where k: "k < nat ((a - b - c - 1) div (- c))" "i = a + int k * c"
    by (auto simp: py_range_def)
  have "int k + 1 \<le> (a - b - c - 1) div (- c)" using k(1) by linarith
  then have "(- c) * (int k + 1) \<le> (- c) * ((a - b - c - 1) div (- c))"
    using assms(1) by (intro mult_left_mono) auto
  also have "\<dots> \<le> a - b - c - 1" using assms(1) by (intro div_times_le) auto
  finally have "(- c) * int k < a - b" by (simp add: algebra_simps)
  moreover have "int k * c \<le> 0" using assms(1) by (simp add: mult_nonneg_nonpos)
  ultimately show ?thesis using k(2) by (simp add: algebra_simps)
qed

lemma py_range_sorted_pos: "0 < c \<Longrightarrow> sorted_wrt (<) (py_range a b c)"
  by (simp add: py_range_def sorted_wrt_map sorted_wrt_iff_nth_less)

lemma py_range_sorted_neg: "c < 0 \<Longrightarrow> sorted_wrt (>) (py_range a b c)"
  by (simp add: py_range_def sorted_wrt_map sorted_wrt_iff_nth_less)

lemma slice_range_in_bounds:
  assumes "slice_indices start stop step len = Inr (a, b, c)" "i \<in> set (py_range a b c)"
  shows "0 \<le> i \<and> i < int len"
proof -
  have nz: "step \<noteq> Some 0"
    using assms(1) by (auto simp: slice_indices_def)
  from slice_indices_ok [OF nz, of start stop len] assms(1)
  have c: "c \<noteq> 0" "0 < c \<longrightarrow> 0 \<le> a \<and> b \<le> int len" "c < 0 \<longrightarrow> - 1 \<le> b \<and> a \<le> int len - 1"
    by auto
  show ?thesis
  proof (cases "0 < c")
    case True
    with py_range_pos_bounds [OF True assms(2)] c show ?thesis by linarith
  next
    case False
    then have neg: "c < 0" using c(1) by linarith
    with py_range_neg_bounds [OF neg assms(2)] c show ?thesis by linarith
  qed
qed

lemma list_getitem_in_bounds:
  "0 \<le> i \<Longrightarrow> i < int (length xs) \<Longrightarrow> list_getitem xs i = Inr (xs ! nat i)"
  by (simp add: list_getitem_def)

lemma comprehension_all_ok:
  "(\<And>x. x \<in> set xs \<Longrightarrow> f x = Inr (g x)) \<Longrightarrow> comprehension f xs = Inr (map g xs)"
  by (induction xs) auto

lemma getitem_slice_eq:
  assumes "step \<noteq> Some 0"
    and "\<And>p. p \<in> set (self_dcm_paths self) \<Longrightarrow> load p = Inr (smp p)"
  shows "\<exists>a b c. slice_indices start stop step (length (self_dcm_paths self)) = Inr (a, b, c) \<and>
           getitem load self (Slice start stop step) =
             Inr (Many (map (\<lambda>i. (smp (self_dcm_paths self ! nat i),
                                     if self_output_idx self then Some i else None))
                          (py_range a b c)))"
proof -
  from slice_indices_ok [OF assms(1), of start stop "length (self_dcm_paths self)"]
  obtain a b c where abc: "slice_indices start stop step (length (self_dcm_paths self)) = Inr (a, b, c)"
    by blast
  have each: "getitem_int load self i =
                Inr (smp (self_dcm_paths self ! nat i), if self_output_idx self then Some i else None)"
    if "i \<in> set (py_range a b c)" for i
  proof -
    from slice_range_in_bounds [OF abc that]
    have b: "0 \<le> i" "i < int (length (self_dcm_paths self))" by auto
    then have "self_dcm_paths self ! nat i \<in> set (self_dcm_paths self)" by simp
    then show ?thesis
      using b assms(2) by (simp add: getitem_int_def list_getitem_in_bounds)
  qed
  have "comprehension (getitem_int load self) (py_range a b c) =
          Inr (map (\<lambda>i. (smp (self_dcm_paths self ! nat i),
                          if self_output_idx self then Some i else None)) (py_range a b c))"
    by (rule comprehension_all_ok) (rule each)
  then show ?thesis
    using abc by (auto simp: getitem_def)
qed



lemma getitem_slice_generic:
  assumes "step \<noteq> Some 0"
  shows "\<exists>a b c. slice_indices start stop step (length (self_dcm_paths self)) = Inr (a, b, c) \<and>
           (\<forall>i\<in>set (py_range a b c). 0 \<le> i \<and> i < int (length (self_dcm_paths self))) \<and>
           (0 < c \<longrightarrow> sorted_wrt (<) (py_range a b c)) \<and>
           (c < 0 \<longrightarrow> sorted_wrt (>) (py_range a b c)) \<and>
           ((\<forall>p\<in>set (self_dcm_paths self). load p = Inr (smp p)) \<longrightarrow>
              getitem load self (Slice start stop step) =
                Inr (Many (map (\<lambda>i. (smp (self_dcm_paths self ! nat i),
                                        if self_output_idx self then Some i else None))
                             (py_range a b c))))"
proof -
  from slice_indices_ok [OF assms, of start stop "length (self_dcm_paths self)"]
  obtain a b c where abc: "slice_indices start stop step (length (self_dcm_paths self)) = Inr (a, b, c)"
    by blast
  have bounds: "\<forall>i\<in>set (py_range a b c). 0 \<le> i \<and> i < int (length (self_dcm_paths self))"
    using slice_range_in_bounds [OF abc] by blast
  have res: "getitem load self (Slice start stop step) =
                Inr (Many (map (\<lambda>i. (smp (self_dcm_paths self ! nat i),
                                        if self_output_idx self then Some i else None))
                             (py_range a b c)))"
    if "\<forall>p\<in>set (self_dcm_paths self). load p = Inr (smp p)"
  proof -
    from getitem_slice_eq [OF assms, of self load smp start stop] that
    show ?thesis using abc by auto
  qed
  from abc bounds res py_range_sorted_pos [of c a b] py_range_sorted_neg [of c a b]
  show ?thesis by blast
qed

text \<open>
  C10, amended: for a dataset of either class and every slice whose step is not zero,
  \<open>slice.indices\<close> succeeds, every index of the range it denotes lies in
  \<open>0..len-1\<close> (so no lookup of the slice raises IndexError, whatever the bounds), the
  indices are strictly ascending for a positive step and strictly descending for a
  negative one, and when every file loads the result is the list of the per-index
  samples in the order of the range.
\<close>

theorem getitem_slice:
  fixes inf :: InferenceDataset and seg :: SegmentationDataset
  assumes "step \<noteq> Some 0"
  shows "(\<exists>a b c. slice_indices start stop step (length (self_dcm_paths inf)) = Inr (a, b, c) \<and>
           (\<forall>i\<in>set (py_range a b c). 0 \<le> i \<and> i < int (length (self_dcm_paths inf))) \<and>
           (0 < c \<longrightarrow> sorted_wrt (<) (py_range a b c)) \<and>
           (c < 0 \<longrightarrow> sorted_wrt (>) (py_range a b c)) \<and>
           ((\<forall>p\<in>set (self_dcm_paths inf). load p = Inr (smp p)) \<longrightarrow>
              InferenceDataset_getitem load inf (Slice start stop step) =
                Inr (Many (map (\<lambda>i. (smp (self_dcm_paths inf ! nat i),
                                        if self_output_idx inf then Some i else None))
                             (py_range a b c))))) \<and>
         (\<exists>a b c. slice_indices start stop step (length (self_dcm_paths seg)) = Inr (a, b, c) \<and>
           (\<forall>i\<in>set (py_range a b c). 0 \<le> i \<and> i < int (length (self_dcm_paths seg))) \<and>
           (0 < c \<longrightarrow> sorted_wrt (<) (py_range a b c)) \<and>
           (c < 0 \<longrightarrow> sorted_wrt (>) (py_range a b c)) \<and>
           ((\<forall>p\<in>set (self_dcm_paths seg). load' p = Inr (smp' p)) \<longrightarrow>
              SegmentationDataset_getitem load' seg (Slice start stop step) =
                Inr (Many (map (\<lambda>i. (smp' (self_dcm_paths seg ! nat i),
                                        if self_output_idx seg then Some i else None))
                             (py_range a b c)))))"
  unfolding InferenceDataset_getitem_def SegmentationDataset_getitem_def
  using getitem_slice_generic [OF assms, of start stop inf load smp]
    getitem_slice_generic [OF assms, of start stop seg load' smp']
  by blast

text \<open>
  C10, as stated, promises ascending index order for every slice.  The slice \<open>[::-1]\<close> of
  the five-file inference dataset (with \<open>output_idx\<close>, each sample here being its path)
  returns the samples of the indices 4, 3, 2, 1, 0 in this order.
\<close>

theorem getitem_slice_descending_counterexample:
  "InferenceDataset_getitem (\<lambda>p. Inr p)
     (InferenceDataset_init example_dcmread example_patient2dcm True)
     (Slice None None (Some (- 1))) =
   Inr (Many [([''MR2'', ''a.dcm''], Some 4), ([''MR2'', ''b.dcm''], Some 3),
              ([''MR1'', ''c.dcm''], Some 2), ([''MR1'', ''b.dcm''], Some 1),
              ([''MR1'', ''a.dcm''], Some 0)])"
  by (simp add: InferenceDataset_getitem_def getitem_def init_dcm_paths init_output_idx
        example_patient2dcm_def slice_indices_def py_range_def getitem_int_def list_getitem_def
        Let_def upt_rec)

text \<open>
  C10, amended, on concrete input: the slice \<open>[-100:100:2]\<close>, both bounds out of range,
  gives the samples of the indices 0, 2, 4 of the five-file inference dataset and of the
  indices 0, 2 of the three-file segmentation dataset.
\<close>

theorem getitem_slice_witness:
  "Some 2 \<noteq> Some (0::int) \<and>
   InferenceDataset_getitem (\<lambda>p. Inr p)
     (InferenceDataset_init example_dcmread example_patient2dcm True)
     (Slice (Some (- 100)) (Some 100) (Some 2)) =
   Inr (Many [([''MR1'', ''a.dcm''], Some 0), ([''MR1'', ''c.dcm''], Some 2),
              ([''MR2'', ''a.dcm''], Some 4)]) \<and>
   SegmentationDataset_getitem (\<lambda>p. Inr (p, p)) example_segmentation
     (Slice (Some (- 100)) (Some 100) (Some 2)) =
   Inr (Many [(([''MR1'', ''a.dcm''], [''MR1'', ''a.dcm'']), None),
              (([''MR1'', ''c.dcm''], [''MR1'', ''c.dcm'']), None)])"
proof -
  have nz: "Some 2 \<noteq> Some (0::int)" by simp
  let ?inf = "InferenceDataset_init example_dcmread example_patient2dcm True"
  have i1: "slice_indices (Some (- 100)) (Some 100) (Some 2) (length (self_dcm_paths ?inf)) = Inr (0, 5, 2)"
    by (simp add: init_dcm_paths example_patient2dcm_def slice_indices_def clamp_bound_def)
  have i2: "slice_indices (Some (- 100)) (Some 100) (Some 2) (length (self_dcm_paths example_segmentation)) = Inr (0, 3, 2)"
    by (simp add: example_segmentation_def slice_indices_def clamp_bound_def)
  have r1: "py_range 0 5 2 = [0, 2, 4]" and r2: "py_range 0 3 2 = [0, 2]"
    by (simp_all add: py_range_def upt_rec)
  from getitem_slice [OF nz, of "Some (- 100)" "Some 100" ?inf "\<lambda>p. Inr p" "\<lambda>p. p"
      example_segmentation "\<lambda>p. Inr (p, p)" "\<lambda>p. (p, p)"]
  show ?thesis
    unfolding i1 i2
    by (simp add: r1 r2 init_dcm_paths init_output_idx example_patient2dcm_def example_segmentation_def)
qed


subsection \<open>The statistics of one exam\<close>

lemma scale_factor_of_dims:
  assumes "attrib ''dim'' = Some (PList (PNum d # ds))"
    and "attrib ''transform_resize_dim'' = Some (PList (PNum t # ts))"
  shows "scale_factor_of attrib = (if t = 0 then Inl ZeroDivisionError else Inr (d\<^sup>2 / t\<^sup>2))"
  using assms
  by (simp add: scale_factor_of_def py_getitem0_def py_pow2_def num_of_def py_truediv_def)

lemma exam_preds_to_stat_Inr:
  assumes "exam_preds_to_stat epsilon h pred_vol ground_vol pred_process a pred_std = Inr (h', r)"
  shows "\<exists>sf vv vox_vol patient mr study.
    scale_factor_of (h ! a) = Inr sf \<and>
    (h ! a) ''vox_vol'' = Some vv \<and> num_of vv = Some vox_vol \<and>
    (h ! a) ''patient'' = Some patient \<and> (h ! a) ''MR'' = Some mr \<and>
    py_add patient mr = Inr study \<and>
    r = a \<and>
    h' = h[a := (h ! a)(''TKV_GT'' \<mapsto> PNum (sf * vox_vol * sum_list (data (pred_process ground_vol))),
                        ''TKV_Pred'' \<mapsto> PNum (sf * vox_vol * sum_list (data (pred_process pred_vol))),
                        ''patient_dice'' \<mapsto> PNum (Dice pred_process epsilon 1 pred_vol ground_vol),
                        ''study'' \<mapsto> study,
                        ''scale_factor'' \<mapsto> PNum sf,
                        ''Pred_stdev'' \<mapsto> pred_std)]"
  using assms
  by (auto simp: exam_preds_to_stat_def Let_def split: sum.splits option.splits)

lemma exam_preds_to_stat_ok:
  assumes "scale_factor_of (h ! a) = Inr sf"
    "(h ! a) ''vox_vol'' = Some vv" "num_of vv = Some vox_vol"
    "(h ! a) ''patient'' = Some patient" "(h ! a) ''MR'' = Some mr"
    "py_add patient mr = Inr study"
  shows "exam_preds_to_stat epsilon h pred_vol ground_vol pred_process a pred_std =
     Inr (h[a := (h ! a)(''TKV_GT'' \<mapsto> PNum (sf * vox_vol * sum_list (data (pred_process ground_vol))),
                        ''TKV_Pred'' \<mapsto> PNum (sf * vox_vol * sum_list (data (pred_process pred_vol))),
                        ''patient_dice'' \<mapsto> PNum (Dice pred_process epsilon 1 pred_vol ground_vol),
                        ''study'' \<mapsto> study,
                        ''scale_factor'' \<mapsto> PNum sf,
                        ''Pred_stdev'' \<mapsto> pred_std)], a)"
  using assms by (simp add: exam_preds_to_stat_def Let_def)

lemma square_ratio_ge_1:
  fixes d t :: real
  assumes "0 < t" "t \<le> d"
  shows "1 \<le> d\<^sup>2 / t\<^sup>2"
proof -
  have "t\<^sup>2 \<le> d\<^sup>2" using assms by (intro power_mono) auto
  moreover have "0 < t\<^sup>2" using assms by simp
  ultimately show ?thesis by (simp add: le_divide_eq)
qed

text \<open>
  C4: whenever \<open>exam_preds_to_stat\<close> returns for a dictionary whose \<open>dim\<close> starts with
  \<open>d\<close> and whose \<open>transform_resize_dim\<close> starts with \<open>t\<close>, the scale factor it stores
  is \<open>d\<^sup>2 / t\<^sup>2\<close>, the squared ratio of the two, and it is at least 1 when
  \<open>0 < t \<le> d\<close>.
\<close>

theorem exam_preds_to_stat_scale_factor:
  assumes "exam_preds_to_stat epsilon h pred_vol ground_vol pred_process a pred_std = Inr (h', r)"
    and "a < length h"
    and "(h ! a) ''dim'' = Some (PList (PNum d # ds))"
    and "(h ! a) ''transform_resize_dim'' = Some (PList (PNum t # ts))"
  shows "(h' ! r) ''scale_factor'' = Some (PNum (d\<^sup>2 / t\<^sup>2)) \<and>
         (0 < t \<and> t \<le> d \<longrightarrow> 1 \<le> d\<^sup>2 / t\<^sup>2)"
proof -
  from exam_preds_to_stat_Inr [OF assms(1)] obtain sf where sf: "scale_factor_of (h ! a) = Inr sf" "r = a"
    "(h' ! a) ''scale_factor'' = Some (PNum sf)"
    using assms(2) by auto
  from sf(1) scale_factor_of_dims [OF assms(3,4)] have "sf = d\<^sup>2 / t\<^sup>2"
    by (simp split: if_splits)
  with sf square_ratio_ge_1 [of t d] show ?thesis by simp
qed


lemma sum_list_binary:
  "\<forall>x\<in>set xs. x = 0 \<or> x = (1::real) \<Longrightarrow> sum_list xs = real (length (filter (\<lambda>x. 0 < x) xs))"
  by (induction xs) auto

lemma sum_list_binary_ones:
  "\<forall>x\<in>set xs. x = 0 \<or> x = (1::real) \<Longrightarrow> sum_list xs = real (length (filter (\<lambda>x. x = 1) xs))"
  by (induction xs) auto

text \<open>
  C3: whenever \<open>exam_preds_to_stat\<close> returns and \<open>pred_process\<close> gives binarized volumes
  (every voxel 0 or 1), \<open>TKV_Pred\<close> and \<open>TKV_GT\<close> are the stored scale factor times the
  voxel volume \<open>vox_vol\<close> times the number of positive voxels of the binarized
  prediction and of the binarized ground truth; with a scale factor of 1 they are
  that number times the voxel volume.
\<close>

theorem exam_preds_to_stat_TKV:
  assumes "exam_preds_to_stat epsilon h pred_vol ground_vol pred_process a pred_std = Inr (h', r)"
    and "a < length h"
    and "\<forall>x\<in>set (data (pred_process pred_vol)). x = 0 \<or> x = 1"
    and "\<forall>x\<in>set (data (pred_process ground_vol)). x = 0 \<or> x = 1"
  shows "\<exists>scale_factor vv vox_vol.
           (h' ! r) ''scale_factor'' = Some (PNum scale_factor) \<and>
           (h ! a) ''vox_vol'' = Some vv \<and> num_of vv = Some vox_vol \<and>
           (h' ! r) ''TKV_Pred'' =
             Some (PNum (scale_factor * vox_vol *
                         real (length (filter (\<lambda>x. 0 < x) (data (pred_process pred_vol)))))) \<and>
           (h' ! r) ''TKV_GT'' =
             Some (PNum (scale_factor * vox_vol *
                         real (length (filter (\<lambda>x. 0 < x) (data (pred_process ground_vol)))))) \<and>
           (scale_factor = 1 \<longrightarrow>
              (h' ! r) ''TKV_Pred'' =
                Some (PNum (real (length (filter (\<lambda>x. 0 < x) (data (pred_process pred_vol)))) * vox_vol)) \<and>
              (h' ! r) ''TKV_GT'' =
                Some (PNum (real (length (filter (\<lambda>x. 0 < x) (data (pred_process ground_vol)))) * vox_vol)))"
proof -
  from exam_preds_to_stat_Inr [OF assms(1)] obtain sf vv vox_vol where
    f: "(h ! a) ''vox_vol'' = Some vv" "num_of vv = Some vox_vol" "r = a"
      "(h' ! a) ''scale_factor'' = Some (PNum sf)"
      "(h' ! a) ''TKV_Pred'' = Some (PNum (sf * vox_vol * sum_list (data (pred_process pred_vol))))"
      "(h' ! a) ''TKV_GT'' = Some (PNum (sf * vox_vol * sum_list (data (pred_process ground_vol))))"
    using assms(2) by auto
  have p: "sum_list (data (pred_process pred_vol)) =
             real (length (filter (\<lambda>x. 0 < x) (data (pred_process pred_vol))))"
    by (rule sum_list_binary [OF assms(3)])
  have g: "sum_list (data (pred_process ground_vol)) =
             real (length (filter (\<lambda>x. 0 < x) (data (pred_process ground_vol))))"
    by (rule sum_list_binary [OF assms(4)])
  show ?thesis
    using f unfolding p g by (auto simp: mult.commute)
qed

lemma sigmoid_gt_half: "sigmoid x > 1 / 2 \<longleftrightarrow> 0 < x"
proof -
  have pos: "0 < 1 + exp (- x)" by (simp add: add_pos_pos)
  have "sigmoid x > 1 / 2 \<longleftrightarrow> 1 + exp (- x) < 2"
    using pos by (simp add: sigmoid_def field_simps)
  also have "\<dots> \<longleftrightarrow> exp (- x) < exp 0" by simp
  also have "\<dots> \<longleftrightarrow> 0 < x" by (simp only: exp_less_cancel_iff) simp
  finally show ?thesis .
qed

lemma data_SigmoidBinarize:
  "data (SigmoidBinarize (1 / 2) a) = map (\<lambda>x. if 0 < x then 1 else 0) (data a)"
  unfolding SigmoidBinarize_def sigmoid_gt_half by simp

lemma shape_SigmoidBinarize: "shape (SigmoidBinarize t a) = shape a"
  by (simp add: SigmoidBinarize_def)

lemma SigmoidBinarize_binary: "\<forall>x\<in>set (data (SigmoidBinarize (1 / 2) a)). x = 0 \<or> x = 1"
  by (auto simp: data_SigmoidBinarize)

lemma sum_binarized:
  "sum_list (map (\<lambda>x. if 0 < x then 1 else 0) xs) = real (length (filter (\<lambda>x. 0 < (x::real)) xs))"
  by (induction xs) auto

lemma intersection_binary:
  assumes "length xs = length ys" "\<forall>y\<in>set ys. y = 0 \<or> y = (1::real)"
  shows "sum_list (map (\<lambda>(x, y). x * y) (zip (map (\<lambda>x. if 0 < x then 1 else 0) xs) ys)) =
         real (length (filter (\<lambda>(x, y). 0 < (x::real) \<and> y = 1) (zip xs ys)))"
  using assms by (induction xs ys rule: list_induct2) auto

lemma Dice_counts:
  assumes "length (data input) = length (data target)"
    and "\<forall>y\<in>set (data target). y = 0 \<or> y = 1"
  shows "Dice (SigmoidBinarize (1 / 2)) epsilon 1 input target =
           (2 * real (length (filter (\<lambda>(x, y). 0 < x \<and> y = 1) (zip (data input) (data target))))
              + epsilon) /
           (real (length (filter (\<lambda>x. 0 < x) (data input)))
              + real (length (filter (\<lambda>y. y = 1) (data target))) + epsilon)"
  using intersection_binary [OF assms] sum_list_binary_ones [OF assms(2)]
  by (simp add: Dice_def Let_def data_SigmoidBinarize sum_binarized)

lemma zip_self_count:
  "length (filter (\<lambda>(x, y). 0 < (x::real) \<and> y = (1::real)) (zip xs (map (\<lambda>x. if 0 < x then 1 else 0) xs)))
     = length (filter (\<lambda>x. 0 < x) xs)"
  by (induction xs) auto

lemma ones_binarized_count:
  "length (filter (\<lambda>y. y = (1::real)) (map (\<lambda>x. if 0 < (x::real) then 1 else 0) xs))
     = length (filter (\<lambda>x. 0 < x) xs)"
  by (induction xs) auto

lemma zip_zero_count:
  assumes "\<forall>y\<in>set ys. y = (0::real)"
  shows "length (filter (\<lambda>(x, y). 0 < (x::real) \<and> y = 1) (zip xs ys)) = 0"
proof -
  have "\<not> (0 < x \<and> y = 1)" if "(x, y) \<in> set (zip xs ys)" for x y
  proof -
    from that have "y \<in> set ys" by (rule set_zip_rightD)
    with assms show ?thesis by auto
  qed
  then show ?thesis by (auto simp: filter_empty_conv)
qed

lemma ones_zero_count:
  "\<forall>y\<in>set ys. y = (0::real) \<Longrightarrow> length (filter (\<lambda>y. y = 1) ys) = 0"
  by (auto simp: filter_empty_conv)

text \<open>
  C5: for a prediction and a ground-truth volume of the same size, the ground truth
  binary, and \<open>\<epsilon> \<ge> 0\<close>, the Dice value with the sigmoid binarization at 0.5 is
  \<open>(2 |P \<inter> G| + \<epsilon>) / (|P| + |G| + \<epsilon>)\<close>, where the three counts run over all voxels of
  the volumes jointly: \<open>P\<close> the voxels whose prediction is binarized to 1 (those with a
  positive value), \<open>G\<close> the voxels of the ground truth that are 1.  For a non-empty
  \<open>P\<close>, the value against \<open>P\<close> itself is 1, and against an empty ground truth it is
  \<open>\<epsilon> / (|P| + \<epsilon>)\<close>, which is less than 1.  This value is what \<open>exam_preds_to_stat\<close>
  stores as \<open>patient_dice\<close>.
\<close>

theorem Dice_formula:
  assumes "length (data input) = length (data target)"
    and "\<forall>y\<in>set (data target). y = 0 \<or> y = 1"
    and "0 \<le> epsilon"
  shows "Dice (SigmoidBinarize (1 / 2)) epsilon 1 input target =
           (2 * real (length (filter (\<lambda>(x, y). 0 < x \<and> y = 1) (zip (data input) (data target))))
              + epsilon) /
           (real (length (filter (\<lambda>x. 0 < x) (data input)))
              + real (length (filter (\<lambda>y. y = 1) (data target))) + epsilon) \<and>
         ((\<exists>x\<in>set (data input). 0 < x) \<and> data target = data (SigmoidBinarize (1 / 2) input) \<longrightarrow>
            Dice (SigmoidBinarize (1 / 2)) epsilon 1 input target = 1) \<and>
         ((\<exists>x\<in>set (data input). 0 < x) \<and> (\<forall>y\<in>set (data target). y = 0) \<longrightarrow>
            Dice (SigmoidBinarize (1 / 2)) epsilon 1 input target =
              epsilon / (real (length (filter (\<lambda>x. 0 < x) (data input))) + epsilon) \<and>
            Dice (SigmoidBinarize (1 / 2)) epsilon 1 input target < 1) \<and>
         (\<forall>h a pred_std h' r.
            exam_preds_to_stat epsilon h input target (SigmoidBinarize (1 / 2)) a pred_std = Inr (h', r)
              \<and> a < length h \<longrightarrow>
            (h' ! r) ''patient_dice'' = Some (PNum (Dice (SigmoidBinarize (1 / 2)) epsilon 1 input target)))"
proof -
  let ?D = "Dice (SigmoidBinarize (1 / 2)) epsilon 1 input target"
  let ?P = "real (length (filter (\<lambda>x. 0 < x) (data input)))"
  note eq = Dice_counts [OF assms(1,2), of epsilon]
  have same: "?D = 1"
    if ne: "\<exists>x\<in>set (data input). 0 < x" and t: "data target = data (SigmoidBinarize (1 / 2) input)"
  proof -
    have "0 < ?P" using ne by (auto simp: filter_empty_conv)
    then have "2 * ?P + epsilon \<noteq> 0" using assms(3) by linarith
    moreover have "length (filter (\<lambda>(x, y). 0 < x \<and> y = 1) (zip (data input) (data target)))
                     = length (filter (\<lambda>x. 0 < x) (data input))"
      unfolding t data_SigmoidBinarize by (rule zip_self_count)
    moreover have "length (filter (\<lambda>y. y = 1) (data target))
                     = length (filter (\<lambda>x. 0 < x) (data input))"
      unfolding t data_SigmoidBinarize by (rule ones_binarized_count)
    ultimately show ?thesis
      unfolding eq by simp
  qed
  have empty: "?D = epsilon / (?P + epsilon) \<and> ?D < 1"
    if ne: "\<exists>x\<in>set (data input). 0 < x" and z: "\<forall>y\<in>set (data target). y = 0"
  proof -
    have pos: "0 < ?P" using ne by (auto simp: filter_empty_conv)
    have d: "?D = epsilon / (?P + epsilon)"
      unfolding eq by (simp add: zip_zero_count [OF z] ones_zero_count [OF z])
    have "epsilon / (?P + epsilon) < 1" using pos assms(3) by (simp add: divide_less_eq)
    with d show ?thesis by simp
  qed
  have stat: "(h' ! r) ''patient_dice'' = Some (PNum ?D)"
    if "exam_preds_to_stat epsilon h input target (SigmoidBinarize (1 / 2)) a pred_std = Inr (h', r)"
      and "a < length h" for h a pred_std h' r
    using exam_preds_to_stat_Inr [OF that(1)] that(2) by auto
  from eq same empty stat show ?thesis by blast
qed

lemma ex_keys:
  "example_attribs ''dim'' = Some (PList [PNum 512, PNum 512])"
  "example_attribs ''transform_resize_dim'' = Some (PList [PNum 256, PNum 256])"
  "example_attribs ''vox_vol'' = Some (PNum 2)"
  "example_attribs ''patient'' = Some (PStr ''WC-1'')"
  "example_attribs ''MR'' = Some (PStr ''MR1'')"
  by (simp_all add: example_attribs_def)

lemma ex_keys_identity:
  "example_attribs_identity ''dim'' = Some (PList [PNum 256, PNum 256])"
  "example_attribs_identity ''transform_resize_dim'' = Some (PList [PNum 256, PNum 256])"
  "example_attribs_identity ''vox_vol'' = Some (PNum 2)"
  "example_attribs_identity ''patient'' = Some (PStr ''WC-1'')"
  "example_attribs_identity ''MR'' = Some (PStr ''MR1'')"
  by (simp_all add: example_attribs_identity_def example_attribs_def)

lemma ex_scale: "scale_factor_of example_attribs = Inr 4"
  using scale_factor_of_dims [OF ex_keys(1,2)] by simp

lemma ex_scale_identity: "scale_factor_of example_attribs_identity = Inr 1"
  using scale_factor_of_dims [OF ex_keys_identity(1,2)] by simp

lemma ex_study_key: "py_add (PStr ''WC-1'') (PStr ''MR1'') = Inr (PStr ''WC-1MR1'')"
  by (simp add: py_add_def)

lemma ex_exam:
  "\<exists>h'. exam_preds_to_stat epsilon [example_attribs] pred_vol ground_vol pred_process 0 pred_std
           = Inr (h', 0)"
  using exam_preds_to_stat_ok [of "[example_attribs]" 0 4 "PNum 2" 2 "PStr ''WC-1''" "PStr ''MR1''"
      "PStr ''WC-1MR1''" epsilon pred_vol ground_vol pred_process pred_std]
  by (simp add: ex_scale ex_keys ex_study_key num_of_def)

lemma ex_exam_identity:
  "\<exists>h'. exam_preds_to_stat epsilon [example_attribs_identity] pred_vol ground_vol pred_process 0 pred_std
           = Inr (h', 0)"
  using exam_preds_to_stat_ok [of "[example_attribs_identity]" 0 1 "PNum 2" 2 "PStr ''WC-1''" "PStr ''MR1''"
      "PStr ''WC-1MR1''" epsilon pred_vol ground_vol pred_process pred_std]
  by (simp add: ex_scale_identity ex_keys_identity ex_study_key num_of_def)

text \<open>
  C4 on the example study: 512 rows resized to 256 give the scale factor
  \<open>512\<^sup>2 / 256\<^sup>2 = 4\<close>, not 2.
\<close>

theorem exam_preds_to_stat_scale_factor_witness:
  "(0::nat) < length [example_attribs] \<and>
   ([example_attribs] ! 0) ''dim'' = Some (PList [PNum 512, PNum 512]) \<and>
   ([example_attribs] ! 0) ''transform_resize_dim'' = Some (PList [PNum 256, PNum 256]) \<and>
   (\<exists>h'. exam_preds_to_stat (1 / 10 ^ 8) [example_attribs] example_pred_vol example_ground_vol
            (SigmoidBinarize (1 / 2)) 0 PNone = Inr (h', 0) \<and>
         (h' ! 0) ''scale_factor'' = Some (PNum 4)) \<and>
   (0::real) < 256 \<and> (256::real) \<le> 512 \<and> (1::real) \<le> 512\<^sup>2 / 256\<^sup>2"
proof -
  obtain h' where h': "exam_preds_to_stat (1 / 10 ^ 8) [example_attribs] example_pred_vol
        example_ground_vol (SigmoidBinarize (1 / 2)) 0 PNone = Inr (h', 0)"
    using ex_exam by blast
  have len: "(0::nat) < length [example_attribs]" by simp
  have d: "([example_attribs] ! 0) ''dim'' = Some (PList (PNum 512 # [PNum 512]))"
    and t: "([example_attribs] ! 0) ''transform_resize_dim'' = Some (PList (PNum 256 # [PNum 256]))"
    by (simp_all add: ex_keys)
  from exam_preds_to_stat_scale_factor [OF h' len d t]
  have "(h' ! 0) ''scale_factor'' = Some (PNum 4) \<and> (1::real) \<le> 512\<^sup>2 / 256\<^sup>2"
    by simp
  with h' len d t show ?thesis by auto
qed

lemma ex_counts:
  "length (filter (\<lambda>x. 0 < x) (data (SigmoidBinarize (1 / 2) example_pred_vol))) = 4"
  "length (filter (\<lambda>x. 0 < x) (data (SigmoidBinarize (1 / 2) example_ground_vol))) = 3"
  by (simp_all add: data_SigmoidBinarize example_pred_vol_def example_ground_vol_def)

text \<open>
  C3 on the example study: with scale factor 4 and voxel volume 2 the 4 positive
  voxels of the prediction give \<open>TKV_Pred = 32\<close> and the 3 of the ground truth
  \<open>TKV_GT = 24\<close>; with the identity resize (scale factor 1) they give 8 and 6.
\<close>

theorem exam_preds_to_stat_TKV_witness:
  "list_all (\<lambda>x. x = 0 \<or> x = 1) (data (SigmoidBinarize (1 / 2) example_pred_vol)) \<and>
   list_all (\<lambda>x. x = 0 \<or> x = 1) (data (SigmoidBinarize (1 / 2) example_ground_vol)) \<and>
   (\<exists>h'. exam_preds_to_stat (1 / 10 ^ 8) [example_attribs] example_pred_vol example_ground_vol
            (SigmoidBinarize (1 / 2)) 0 PNone = Inr (h', 0) \<and>
         (h' ! 0) ''scale_factor'' = Some (PNum 4) \<and>
         (h' ! 0) ''TKV_Pred'' = Some (PNum (4 * 2 * 4)) \<and>
         (h' ! 0) ''TKV_GT'' = Some (PNum (4 * 2 * 3))) \<and>
   (\<exists>h'. exam_preds_to_stat (1 / 10 ^ 8) [example_attribs_identity] example_pred_vol
            example_ground_vol (SigmoidBinarize (1 / 2)) 0 PNone = Inr (h', 0) \<and>
         (h' ! 0) ''scale_factor'' = Some (PNum 1) \<and>
         (h' ! 0) ''TKV_Pred'' = Some (PNum (4 * 2)) \<and>
         (h' ! 0) ''TKV_GT'' = Some (PNum (3 * 2)))"
proof -
  let ?pp = "SigmoidBinarize (1 / 2)"
  have b1: "\<forall>x\<in>set (data (?pp example_pred_vol)). x = 0 \<or> x = 1"
    and b2: "\<forall>x\<in>set (data (?pp example_ground_vol)). x = 0 \<or> x = 1"
    by (rule SigmoidBinarize_binary)+
  have len: "(0::nat) < length [example_attribs]" "(0::nat) < length [example_attribs_identity]"
    by simp_all
  obtain h1 where h1: "exam_preds_to_stat (1 / 10 ^ 8) [example_attribs] example_pred_vol
        example_ground_vol ?pp 0 PNone = Inr (h1, 0)"
    using ex_exam by blast
  obtain h2 where h2: "exam_preds_to_stat (1 / 10 ^ 8) [example_attribs_identity] example_pred_vol
        example_ground_vol ?pp 0 PNone = Inr (h2, 0)"
    using ex_exam_identity by blast
  have s1: "(h1 ! 0) ''scale_factor'' = Some (PNum 4)"
    using exam_preds_to_stat_Inr [OF h1] by (auto simp: ex_scale)
  have s2: "(h2 ! 0) ''scale_factor'' = Some (PNum 1)"
    using exam_preds_to_stat_Inr [OF h2] by (auto simp: ex_scale_identity)
  from exam_preds_to_stat_TKV [OF h1 len(1) b1 b2] s1
  have r1: "(h1 ! 0) ''TKV_Pred'' = Some (PNum (4 * 2 * 4)) \<and> (h1 ! 0) ''TKV_GT'' = Some (PNum (4 * 2 * 3))"
    by (auto simp: ex_keys ex_counts num_of_def)
  from exam_preds_to_stat_TKV [OF h2 len(2) b1 b2] s2
  have r2: "(h2 ! 0) ''TKV_Pred'' = Some (PNum (4 * 2)) \<and> (h2 ! 0) ''TKV_GT'' = Some (PNum (3 * 2))"
    by (auto simp: ex_keys_identity ex_counts num_of_def)
  from b1 b2 h1 h2 s1 s2 r1 r2 show ?thesis
    unfolding list_all_iff by blast
qed


subsection \<open>Studies without slices or attributes\<close>

lemma for_loop_raises:
  assumes "x \<in> set xs" and "\<And>s. \<exists>e. body s x = Inl e"
  shows "\<exists>e. for_loop body s xs = Inl e"
  using assms(1)
proof (induction xs arbitrary: s)
  case Nil
  then show ?case by simp
next
  case (Cons y ys)
  show ?case
  proof (cases "body s y")
    case (Inl e)
    then show ?thesis by simp
  next
    case (Inr s')
    show ?thesis
    proof (cases "y = x")
      case True
      with assms(2) [of s] Inr show ?thesis by auto
    next
      case False
      with Cons.prems have "x \<in> set ys" by simp
      from Cons.IH [OF this, of s'] Inr show ?thesis by simp
    qed
  qed
qed

lemma process_study_no_imgs: "imgs sd = [] \<Longrightarrow> process_study epsilon pred_process st sd = Inl ValueError"
  by (simp add: process_study_def np_stack_def)

lemma process_study_no_attribs:
  assumes "attribs sd = []"
  shows "\<exists>e. process_study epsilon pred_process st sd = Inl e"
  using assms by (auto simp: process_study_def split: sum.splits)

lemma process_study_no_attribs_IndexError:
  assumes "attribs sd = []" "np_stack (imgs sd) = Inr iv" "np_stack (preds sd) = Inr pv"
    "np_stack (grounds sd) = Inr gv"
  shows "process_study epsilon pred_process st sd = Inl IndexError"
  using assms by (simp add: process_study_def)

text \<open>
  C8, amended: a study directory with no image slice, or with no attribute file, among
  the directories of any model makes the whole run end with an exception; nothing is
  skipped.  A study with no image slice raises the ValueError of \<open>np.stack\<close>; a study
  whose three stacks succeed and that has no attribute file raises the IndexError of
  \<open>attribs_dicts[0]\<close>.
\<close>

theorem compute_inference_stats_aborts:
  assumes "model_dir \<in> set model_inferences" and "sd \<in> set model_dir"
    and "imgs sd = [] \<or> attribs sd = []"
  shows "(\<exists>e. compute_inference_stats cv2_resize epsilon model_inferences = Inl e) \<and>
         (imgs sd = [] \<longrightarrow> (\<forall>pred_process st. process_study epsilon pred_process st sd = Inl ValueError)) \<and>
         (attribs sd = [] \<and> (\<exists>iv. np_stack (imgs sd) = Inr iv) \<and> (\<exists>pv. np_stack (preds sd) = Inr pv) \<and>
            (\<exists>gv. np_stack (grounds sd) = Inr gv) \<longrightarrow>
          (\<forall>pred_process st. process_study epsilon pred_process st sd = Inl IndexError))"
proof -
  let ?pp = "SigmoidBinarize (1 / 2)"
  have study: "\<exists>e. process_study epsilon ?pp st sd = Inl e" for st
    using assms(3) process_study_no_imgs [of sd epsilon ?pp st]
      process_study_no_attribs [of sd epsilon ?pp st] by auto
  have "\<exists>e. for_loop (process_study epsilon ?pp) st model_dir = Inl e" for st
    by (rule for_loop_raises [OF assms(2)]) (rule study)
  then have "\<exists>e. for_loop (\<lambda>st model_dir. for_loop (process_study epsilon ?pp) st model_dir)
                 initial_stats
                 model_inferences = Inl e"
    by (intro for_loop_raises [OF assms(1)])
  then obtain e where
    "for_loop (\<lambda>st model_dir. for_loop (process_study epsilon ?pp) st model_dir)
       initial_stats
       model_inferences = Inl e"
    by blast
  then have run: "\<exists>e. compute_inference_stats cv2_resize epsilon model_inferences = Inl e"
    by (simp add: compute_inference_stats_def Let_def)
  from run process_study_no_imgs process_study_no_attribs_IndexError show ?thesis
    by blast
qed


subsection \<open>Arrays and the ensemble\<close>

lemma upt_block: "[n * r..<n * r + r] = map (\<lambda>j. n * r + j) [0..<r]"
  by (simp add: map_add_upt add.commute)

lemma concat_grid:
  "concat (map (\<lambda>i. map (\<lambda>j. f i j) [0..<r]) [0..<n]) =
   map (\<lambda>k. f (k div r) (k mod r)) [0..<n * r]"
proof (induction n)
  case 0
  then show ?case by simp
next
  case (Suc n)
  have "Suc n * r = n * r + r" by simp
  then have split: "[0..<Suc n * r] = [0..<n * r] @ [n * r..<n * r + r]"
    using upt_add_eq_append [of 0 "n * r" r] by (simp only: le0)
  have "map (\<lambda>k. f (k div r) (k mod r)) [n * r..<n * r + r] = map (\<lambda>j. f n j) [0..<r]"
    unfolding upt_block by (simp add: comp_def)
  with Suc show ?case
    unfolding split by simp
qed

lemma transpose_index:
  fixes k s r :: nat
  assumes "k < s * r"
  shows "(k mod r) * s + k div r < r * s"
    and "((k mod r) * s + k div r) mod s = k div r"
    and "((k mod r) * s + k div r) div s = k mod r"
proof -
  have r: "0 < r" using assms by (cases r) auto
  have d: "k div r < s" using assms r by (simp add: less_mult_imp_div_less mult.commute)
  have m: "k mod r < r" using r by simp
  have "(k mod r) * s + k div r < (k mod r) * s + s" using d by simp
  also have "\<dots> = (k mod r + 1) * s" by (simp add: algebra_simps)
  also have "\<dots> \<le> r * s" using m by (intro mult_right_mono) auto
  finally show "(k mod r) * s + k div r < r * s" .
  show "((k mod r) * s + k div r) mod s = k div r" using d by simp
  show "((k mod r) * s + k div r) div s = k mod r" using d by simp
qed

lemma moveaxis_round_trip:
  assumes "length d = s * r"
  shows "map (\<lambda>k. map (\<lambda>k'. d ! ((k' mod s) * r + k' div s)) [0..<r * s] ! ((k mod r) * s + k div r))
           [0..<s * r] = d"
proof (rule nth_equalityI)
  show "length (map (\<lambda>k. map (\<lambda>k'. d ! ((k' mod s) * r + k' div s)) [0..<r * s] !
            ((k mod r) * s + k div r)) [0..<s * r]) = length d"
    using assms by simp
next
  fix i
  assume "i < length (map (\<lambda>k. map (\<lambda>k'. d ! ((k' mod s) * r + k' div s)) [0..<r * s] !
            ((k mod r) * s + k div r)) [0..<s * r])"
  then have i: "i < s * r" by simp
  note t = transpose_index [OF i]
  have "map (\<lambda>k'. d ! ((k' mod s) * r + k' div s)) [0..<r * s] ! ((i mod r) * s + i div r)
          = d ! ((i div r) * r + i mod r)"
    using t by simp
  then show "map (\<lambda>k. map (\<lambda>k'. d ! ((k' mod s) * r + k' div s)) [0..<r * s] !
            ((k mod r) * s + k div r)) [0..<s * r] ! i = d ! i"
    using i by simp
qed


lemma reshape_volume:
  assumes "shape v = [s, 1, n, n]" "2 \<le> s" "2 \<le> n"
  shows "reshape v =
           Inr \<lparr>shape = [n, n, s],
                data = map (\<lambda>k. data v ! ((k mod s) * (n * n) + k div s)) [0..<n * n * s]\<rparr>"
proof -
  have "concat (map (\<lambda>j. map (\<lambda>i. data v ! (i * (n * n) + j)) [0..<s]) [0..<n * n]) =
          map (\<lambda>k. data v ! ((k mod s) * (n * n) + k div s)) [0..<n * n * s]"
    by (rule concat_grid)
  then show ?thesis
    using assms by (simp add: reshape_def np_moveaxis_first_last_def np_squeeze_def Let_def)
qed

lemma mean_of_two:
  assumes "length xs = prod_list sh"
  shows "np_mean_axis0 \<lparr>shape = 2 # sh, data = xs @ xs\<rparr> = Inr \<lparr>shape = sh, data = xs\<rparr>"
proof -
  have "map (\<lambda>j. sum_list (map (\<lambda>i. (xs @ xs) ! (i * prod_list sh + j)) [0..<2]) / real 2)
          [0..<prod_list sh] = xs"
  proof (rule nth_equalityI)
    show "length (map (\<lambda>j. sum_list (map (\<lambda>i. (xs @ xs) ! (i * prod_list sh + j)) [0..<2]) / real 2)
            [0..<prod_list sh]) = length xs"
      using assms by simp
  next
    fix j
    assume "j < length (map (\<lambda>j. sum_list (map (\<lambda>i. (xs @ xs) ! (i * prod_list sh + j)) [0..<2]) / real 2)
            [0..<prod_list sh])"
    then have j: "j < length xs" using assms by simp
    have two: "[0..<2] = [0, 1]" by (simp add: upt_rec)
    have "(xs @ xs) ! j = xs ! j" "(xs @ xs) ! (length xs + j) = xs ! j"
      using j by (simp_all add: nth_append)
    then show "map (\<lambda>j. sum_list (map (\<lambda>i. (xs @ xs) ! (i * prod_list sh + j)) [0..<2]) / real 2)
            [0..<prod_list sh] ! j = xs ! j"
      using j assms by (simp add: two)
  qed
  then show ?thesis
    by (simp add: np_mean_axis0_def Let_def)
qed

lemma moveaxis_back:
  assumes "length d = s * (n * n)"
  shows "np_moveaxis_last_first
           \<lparr>shape = [n, n, s],
            data = map (\<lambda>k. d ! ((k mod s) * (n * n) + k div s)) [0..<n * n * s]\<rparr>
         = Inr \<lparr>shape = [s, n, n], data = d\<rparr>"
proof -
  let ?d' = "map (\<lambda>k. d ! ((k mod s) * (n * n) + k div s)) [0..<n * n * s]"
  have "concat (map (\<lambda>i. map (\<lambda>j. ?d' ! (j * s + i)) [0..<n * n]) [0..<s]) =
          map (\<lambda>k. ?d' ! ((k mod (n * n)) * s + k div (n * n))) [0..<s * (n * n)]"
    by (rule concat_grid)
  also have "\<dots> = d"
    by (rule moveaxis_round_trip [OF assms])
  finally show ?thesis
    by (simp add: np_moveaxis_last_first_def Let_def)
qed

lemma resized_stack_identical:
  assumes "shape v = [s, 1, n, n]" "2 \<le> s" "2 \<le> n"
    and "\<And>src. take 2 (shape src) = [n, n] \<Longrightarrow> cv2_resize src [n, n] = Inr src"
  shows "resized_stack cv2_resize [v, v] =
           Inr \<lparr>shape = [2, n, n, s],
                data = map (\<lambda>k. data v ! ((k mod s) * (n * n) + k div s)) [0..<n * n * s] @
                       map (\<lambda>k. data v ! ((k mod s) * (n * n) + k div s)) [0..<n * n * s]\<rparr>"
proof -
  let ?rv = "\<lparr>shape = [n, n, s],
              data = map (\<lambda>k. data v ! ((k mod s) * (n * n) + k div s)) [0..<n * n * s]\<rparr>"
  have r: "reshape v = Inr ?rv" by (rule reshape_volume [OF assms(1-3)])
  have c: "cv2_resize ?rv [n, n] = Inr ?rv" by (rule assms(4)) simp
  show ?thesis
    using assms(1) by (simp add: resized_stack_def r c np_stack_def)
qed

lemma sum_list_const:
  "\<forall>x\<in>set xs. x = (c::real) \<Longrightarrow> sum_list xs = real (length xs) * c"
  by (induction xs) (auto simp: algebra_simps)

lemma np_std_zero_iff: "np_std a = 0 \<longleftrightarrow> (\<exists>c. \<forall>x\<in>set (data a). x = c)"
proof (cases "data a = []")
  case True
  then show ?thesis by (simp add: np_std_def)
next
  case False
  define xs where "xs = data a"
  define mu where "mu = sum_list xs / real (length xs)"
  have n: "0 < real (length xs)" using False by (simp add: xs_def)
  have nonneg: "\<And>y. y \<in> set (map (\<lambda>x. (x - mu)\<^sup>2) xs) \<Longrightarrow> 0 \<le> y" by auto
  have "np_std a = 0 \<longleftrightarrow> sum_list (map (\<lambda>x. (x - mu)\<^sup>2) xs) = 0"
    using n by (simp add: np_std_def Let_def xs_def [symmetric] mu_def [symmetric])
  also have "\<dots> \<longleftrightarrow> (\<forall>y\<in>set (map (\<lambda>x. (x - mu)\<^sup>2) xs). y = 0)"
    by (rule sum_list_nonneg_eq_0_iff) (rule nonneg)
  also have "\<dots> \<longleftrightarrow> (\<forall>x\<in>set xs. x = mu)" by auto
  also have "\<dots> \<longleftrightarrow> (\<exists>c. \<forall>x\<in>set xs. x = c)"
  proof
    assume "\<forall>x\<in>set xs. x = mu"
    then show "\<exists>c. \<forall>x\<in>set xs. x = c" by blast
  next
    assume "\<exists>c. \<forall>x\<in>set xs. x = c"
    then obtain c where c: "\<forall>x\<in>set xs. x = c" by blast
    from sum_list_const [OF c] n have "mu = c" by (simp add: mu_def)
    with c show "\<forall>x\<in>set xs. x = mu" by simp
  qed
  finally show ?thesis by (simp add: xs_def)
qed

lemma set_transposed:
  assumes "length d = s * r"
  shows "set (map (\<lambda>k. d ! ((k mod s) * r + k div s)) [0..<r * s]) = set d"
proof
  show "set (map (\<lambda>k. d ! ((k mod s) * r + k div s)) [0..<r * s]) \<subseteq> set d"
  proof
    fix x assume "x \<in> set (map (\<lambda>k. d ! ((k mod s) * r + k div s)) [0..<r * s])"
    then obtain k where k: "k < r * s" "x = d ! ((k mod s) * r + k div s)" by auto
    from transpose_index(1) [OF k(1)] assms have "(k mod s) * r + k div s < length d" by simp
    with k(2) show "x \<in> set d" by simp
  qed
  show "set d \<subseteq> set (map (\<lambda>k. d ! ((k mod s) * r + k div s)) [0..<r * s])"
  proof
    fix x assume "x \<in> set d"
    then obtain m where m: "m < s * r" "x = d ! m"
      using assms by (auto simp: in_set_conv_nth)
    let ?k = "(m mod r) * s + m div r"
    note t = transpose_index [OF m(1)]
    have "d ! ((?k mod s) * r + ?k div s) = d ! m" using t by simp
    with m(2) t(1) show "x \<in> set (map (\<lambda>k. d ! ((k mod s) * r + k div s)) [0..<r * s])"
      by (auto simp: image_iff intro!: bexI [of _ ?k])
  qed
qed

lemma process_study_dice:
  assumes "process_study epsilon pred_process st0 sd = Inr st1"
    and "np_stack (preds sd) = Inr v" and "np_stack (grounds sd) = Inr g"
  shows "(dicts st1 ! length (dicts st0)) ''patient_dice'' = Some (PNum (Dice pred_process epsilon 1 v g))"
proof -
  from assms obtain a0 h r where
    e: "exam_preds_to_stat epsilon (dicts st0 @ [a0]) v g pred_process (length (dicts st0)) PNone
          = Inr (h, r)" and d: "dicts st1 = h"
    by (auto simp: process_study_def split: sum.splits list.splits option.splits if_splits)
  from exam_preds_to_stat_Inr [OF e] d show ?thesis by auto
qed

text \<open>
  C6, amended: let two models give the same prediction volume \<open>v\<close> for a study, of at
  least two slices of at least 2 x 2 pixels, with the same ground truth \<open>g\<close>, and let
  \<open>cv2.resize\<close> return an image whose size already is the target size unchanged.
  Then the Dice value of the combined summary equals the Dice value \<open>Dice(v, g)\<close> that
  each model's own summary gets, and \<open>Pred_stdev\<close> is the population standard
  deviation of all elements of the stacked predictions, which is 0 exactly when all voxels
  of \<open>v\<close> have one and the same value.
\<close>

theorem combine_identical_predictions:
  assumes "shape v = [s, 1, n, n]" and "2 \<le> s" and "2 \<le> n" and "length (data v) = s * (n * n)"
    and "\<And>src. take 2 (shape src) = [n, n] \<Longrightarrow> cv2_resize src [n, n] = Inr src"
    and "process_study epsilon pred_process st0 sd = Inr st1"
    and "np_stack (preds sd) = Inr v" and "np_stack (grounds sd) = Inr g"
    and "combine_study cv2_resize epsilon pred_process st (key, [v, v]) = Inr st'"
    and "dd_first (all_ground_vol st) key = Inr g"
    and "dd_first (all_summaries st) key = Inr a" and "a < length (dicts st)"
  shows "(dicts st1 ! length (dicts st0)) ''patient_dice''
           = Some (PNum (Dice pred_process epsilon 1 v g)) \<and>
         (dicts st' ! a) ''patient_dice'' = Some (PNum (Dice pred_process epsilon 1 v g)) \<and>
         (\<exists>stacked. resized_stack cv2_resize [v, v] = Inr stacked \<and>
            (dicts st' ! a) ''Pred_stdev'' = Some (PNum (np_std stacked)) \<and>
            (np_std stacked = 0 \<longleftrightarrow> (\<exists>c. \<forall>x\<in>set (data v). x = c)))"
proof -
  let ?d' = "map (\<lambda>k. data v ! ((k mod s) * (n * n) + k div s)) [0..<n * n * s]"
  let ?stacked = "\<lparr>shape = [2, n, n, s], data = ?d' @ ?d'\<rparr>"
  have rs: "resized_stack cv2_resize [v, v] = Inr ?stacked"
    by (rule resized_stack_identical [where cv2_resize = cv2_resize, OF assms(1-3)]) (rule assms(5))
  have mean: "np_mean_axis0 ?stacked = Inr \<lparr>shape = [n, n, s], data = ?d'\<rparr>"
    by (rule mean_of_two) simp
  have mv: "np_moveaxis_last_first \<lparr>shape = [n, n, s], data = ?d'\<rparr>
                = Inr \<lparr>shape = [s, n, n], data = data v\<rparr>"
    by (rule moveaxis_back [OF assms(4)])
  have ex: "np_expand_dims_1 \<lparr>shape = [s, n, n], data = data v\<rparr> = Inr v"
    using assms(1) by (simp add: np_expand_dims_1_def)
  from assms(9) obtain h r where
    e: "exam_preds_to_stat epsilon (dicts st) v g pred_process a (PNum (np_std ?stacked)) = Inr (h, r)"
    and d: "dicts st' = h"
    by (auto simp: combine_study_def rs mean mv ex assms(10,11)
        split: sum.splits option.splits if_splits)
  from exam_preds_to_stat_Inr [OF e] d assms(12)
  have c: "(dicts st' ! a) ''patient_dice'' = Some (PNum (Dice pred_process epsilon 1 v g))"
    "(dicts st' ! a) ''Pred_stdev'' = Some (PNum (np_std ?stacked))"
    by auto
  have "set (data ?stacked) = set (data v)"
    using set_transposed [OF assms(4)] by (simp add: mult.commute)
  then have z: "np_std ?stacked = 0 \<longleftrightarrow> (\<exists>c. \<forall>x\<in>set (data v). x = c)"
    by (simp only: np_std_zero_iff)
  from process_study_dice [OF assms(6-8)] c rs z show ?thesis by blast
qed

lemma map_of_update_same: "map_of (AList.update k v al) k = Some v"
  by (simp add: update_conv')

text \<open>
  C9: when \<open>exam_preds_to_stat\<close> returns, the reference it returns is the one it was
  given, no other object of the store has changed, and in the object itself exactly
  the keys TKV_GT, TKV_Pred, patient_dice, study, scale_factor and Pred_stdev are set,
  every other key keeping its value.  Consequently, when an iteration of the
  combination loop returns, the combined summary it files under the study is the first
  reference of \<open>all_summaries[key]\<close>, the first model's summary object, which
  \<open>all_summaries\<close> and \<open>Metric_data\<close> still hold and which now carries the combined
  values (its Pred_stdev is the standard deviation of the stack).
\<close>

theorem exam_preds_to_stat_in_place:
  assumes "exam_preds_to_stat epsilon h pred_vol ground_vol pred_process a pred_std = Inr (h', r)"
    and "a < length h"
    and "combine_study cv2_resize epsilon pred_process st item = Inr st'"
    and "\<forall>refs. map_of (all_summaries st) (fst item) = Some refs \<longrightarrow>
           list_all (\<lambda>x. x < length (dicts st)) refs"
  shows "r = a \<and> length h' = length h \<and> (\<forall>b. b \<noteq> a \<longrightarrow> h' ! b = h ! b) \<and>
         (\<forall>k. k \<notin> {''TKV_GT'', ''TKV_Pred'', ''patient_dice'', ''study'', ''scale_factor'',
                   ''Pred_stdev''} \<longrightarrow> (h' ! a) k = (h ! a) k) \<and>
         dom (h' ! a) = dom (h ! a) \<union> {''TKV_GT'', ''TKV_Pred'', ''patient_dice'', ''study'',
                                          ''scale_factor'', ''Pred_stdev''} \<and>
         (h' ! a) ''Pred_stdev'' = Some pred_std \<and>
         (\<exists>first rest stacked study.
            map_of (all_summaries st) (fst item) = Some (first # rest) \<and>
            resized_stack cv2_resize (snd item) = Inr stacked \<and>
            all_summaries st' = all_summaries st \<and> Metric_data st' = Metric_data st \<and>
            map_of (Combined_metric_data st') study = Some first \<and>
            (dicts st' ! first) ''study'' = Some study \<and>
            (dicts st' ! first) ''Pred_stdev'' = Some (PNum (np_std stacked)) \<and>
            (\<forall>b. b \<noteq> first \<longrightarrow> dicts st' ! b = dicts st ! b))"
proof -
  from exam_preds_to_stat_Inr [OF assms(1)] obtain d where
    r: "r = a" and h': "h' = h[a := d]"
    and d: "d = (h ! a)(''TKV_GT'' \<mapsto> the (d ''TKV_GT''), ''TKV_Pred'' \<mapsto> the (d ''TKV_Pred''),
                       ''patient_dice'' \<mapsto> the (d ''patient_dice''), ''study'' \<mapsto> the (d ''study''),
                       ''scale_factor'' \<mapsto> the (d ''scale_factor''), ''Pred_stdev'' \<mapsto> pred_std)"
    by auto
  have at: "h' ! a = d" using assms(2) h' by simp
  have p1: "r = a \<and> length h' = length h \<and> (\<forall>b. b \<noteq> a \<longrightarrow> h' ! b = h ! b)"
    using r h' by simp
  have p2: "\<forall>k. k \<notin> {''TKV_GT'', ''TKV_Pred'', ''patient_dice'', ''study'', ''scale_factor'',
                   ''Pred_stdev''} \<longrightarrow> (h' ! a) k = (h ! a) k"
    unfolding at by (subst d) simp
  have p3: "dom (h' ! a) = dom (h ! a) \<union> {''TKV_GT'', ''TKV_Pred'', ''patient_dice'', ''study'',
                                          ''scale_factor'', ''Pred_stdev''}"
    unfolding at by (subst d) auto
  have p4: "(h' ! a) ''Pred_stdev'' = Some pred_std"
    unfolding at by (subst d) simp
  from assms(3) obtain stacked pv gv first hh rr study where
    c: "resized_stack cv2_resize (snd item) = Inr stacked"
      "dd_first (all_summaries st) (fst item) = Inr first"
      "exam_preds_to_stat epsilon (dicts st) pv gv pred_process first (PNum (np_std stacked)) = Inr (hh, rr)"
      "(hh ! rr) ''study'' = Some study"
      "st' = st\<lparr>dicts := hh, Combined_metric_data := AList.update study rr (Combined_metric_data st)\<rparr>"
    by (auto simp: combine_study_def split: sum.splits option.splits if_splits)
  from c(2) obtain rest where refs: "map_of (all_summaries st) (fst item) = Some (first # rest)"
    by (auto simp: dd_first_def split: option.splits list.splits)
  from assms(4) refs have lt: "first < length (dicts st)" by auto
  from exam_preds_to_stat_Inr [OF c(3)] lt have
    e: "rr = first" "(hh ! first) ''Pred_stdev'' = Some (PNum (np_std stacked))"
      "\<forall>b. b \<noteq> first \<longrightarrow> hh ! b = dicts st ! b"
    by auto
  have p5: "\<exists>first rest stacked study.
            map_of (all_summaries st) (fst item) = Some (first # rest) \<and>
            resized_stack cv2_resize (snd item) = Inr stacked \<and>
            all_summaries st' = all_summaries st \<and> Metric_data st' = Metric_data st \<and>
            map_of (Combined_metric_data st') study = Some first \<and>
            (dicts st' ! first) ''study'' = Some study \<and>
            (dicts st' ! first) ''Pred_stdev'' = Some (PNum (np_std stacked)) \<and>
            (\<forall>b. b \<noteq> first \<longrightarrow> dicts st' ! b = dicts st ! b)"
    using refs c(1,4) e by (auto simp: c(5) map_of_update_same)
  from p1 p2 p3 p4 p5 show ?thesis by blast
qed

lemma ex_stacks:
  "np_stack (imgs example_study) = Inr \<lparr>shape = [2, 1, 2, 2], data = [0, 0, 0, 0, 0, 0, 0, 0]\<rparr>"
  "np_stack (preds example_study) = Inr example_pred_vol"
  "np_stack (grounds example_study) = Inr example_ground_vol"
  by (simp_all add: example_study_def np_stack_def example_pred_vol_def example_ground_vol_def)

lemma ex_dice:
  "Dice (SigmoidBinarize (1 / 2)) epsilon 1 example_pred_vol example_ground_vol
     = (6 + epsilon) / (7 + epsilon)"
proof -
  have "length (data example_pred_vol) = length (data example_ground_vol)"
    and "\<forall>y\<in>set (data example_ground_vol). y = 0 \<or> y = 1"
    by (simp_all add: example_pred_vol_def example_ground_vol_def)
  from Dice_counts [OF this, of epsilon] show ?thesis
    by (simp add: example_pred_vol_def example_ground_vol_def)
qed

lemma ex_sums:
  "sum_list (data (SigmoidBinarize (1 / 2) example_pred_vol)) = 4"
  "sum_list (data (SigmoidBinarize (1 / 2) example_ground_vol)) = 3"
  by (simp_all add: data_SigmoidBinarize example_pred_vol_def example_ground_vol_def)

lemma ex_summary_keys:
  "scale_factor_of (example_summary epsilon ps) = Inr 4"
  "example_summary epsilon ps ''vox_vol'' = Some (PNum 2)"
  "example_summary epsilon ps ''patient'' = Some (PStr ''WC-1'')"
  "example_summary epsilon ps ''MR'' = Some (PStr ''MR1'')"
proof -
  have k: "example_summary epsilon ps ''dim'' = Some (PList [PNum 512, PNum 512])"
    "example_summary epsilon ps ''transform_resize_dim'' = Some (PList [PNum 256, PNum 256])"
    by (simp_all add: example_summary_def ex_keys)
  from scale_factor_of_dims [OF k] show "scale_factor_of (example_summary epsilon ps) = Inr 4"
    by simp
qed (simp_all add: example_summary_def ex_keys)

lemma ex_exam_first:
  "exam_preds_to_stat epsilon (h @ [example_attribs]) example_pred_vol example_ground_vol
     (SigmoidBinarize (1 / 2)) (length h) PNone
   = Inr (h @ [example_summary epsilon PNone], length h)"
  using exam_preds_to_stat_ok [of "h @ [example_attribs]" "length h" 4 "PNum 2" 2 "PStr ''WC-1''"
      "PStr ''MR1''" "PStr ''WC-1MR1''" epsilon example_pred_vol example_ground_vol
      "SigmoidBinarize (1 / 2)" PNone]
  by (simp add: ex_scale ex_keys ex_study_key num_of_def ex_sums ex_dice [unfolded One_nat_def]
        example_summary_def)

lemma ex_exam_combined:
  assumes "a < length h" "h ! a = example_summary epsilon PNone"
  shows "exam_preds_to_stat epsilon h example_pred_vol example_ground_vol
     (SigmoidBinarize (1 / 2)) a pred_std
   = Inr (h[a := example_summary epsilon pred_std], a)"
  using exam_preds_to_stat_ok [of h a 4 "PNum 2" 2 "PStr ''WC-1''"
      "PStr ''MR1''" "PStr ''WC-1MR1''" epsilon example_pred_vol example_ground_vol
      "SigmoidBinarize (1 / 2)" pred_std]
  by (simp add: assms ex_summary_keys ex_study_key num_of_def ex_sums ex_dice [unfolded One_nat_def])
     (simp add: example_summary_def)

lemma ex_process:
  "process_study epsilon (SigmoidBinarize (1 / 2)) st example_study =
     Inr (st\<lparr>dicts := dicts st @ [example_summary epsilon PNone],
             Metric_data := AList.update (PStr ''WC-1MR1'') (length (dicts st)) (Metric_data st),
             all_pred_vol := dd_append (PStr ''WC-1MR1'') example_pred_vol (all_pred_vol st),
             all_ground_vol := dd_append (PStr ''WC-1MR1'') example_ground_vol (all_ground_vol st),
             all_summaries := dd_append (PStr ''WC-1MR1'') (length (dicts st)) (all_summaries st)\<rparr>)"
proof -
  have a: "attribs example_study = [example_attribs, example_attribs]"
    by (simp add: example_study_def)
  have k: "example_summary epsilon PNone ''study'' = Some (PStr ''WC-1MR1'')"
    by (simp add: example_summary_def)
  show ?thesis
    by (simp add: process_study_def ex_stacks a ex_exam_first k hashable_def)
qed

lemma ex_std:
  "np_std \<lparr>shape = [2, 2, 2, 2],
           data = map (\<lambda>k. data example_pred_vol ! ((k mod 2) * (2 * 2) + k div 2)) [0..<2 * 2 * 2] @
                  map (\<lambda>k. data example_pred_vol ! ((k mod 2) * (2 * 2) + k div 2)) [0..<2 * 2 * 2]\<rparr>
   = 1"
  by (simp add: np_std_def example_pred_vol_def upt_rec)

lemma ex_combine:
  assumes "dd_first (all_ground_vol st) key = Inr example_ground_vol"
    and "dd_first (all_summaries st) key = Inr a" and "a < length (dicts st)"
    and "dicts st ! a = example_summary epsilon PNone"
  shows "combine_study (\<lambda>src dsize. Inr src) epsilon (SigmoidBinarize (1 / 2)) st
           (key, [example_pred_vol, example_pred_vol]) =
         Inr (st\<lparr>dicts := (dicts st)[a := example_summary epsilon (PNum 1)],
                 Combined_metric_data :=
                   AList.update (PStr ''WC-1MR1'') a (Combined_metric_data st)\<rparr>)"
proof -
  let ?d' = "map (\<lambda>k. data example_pred_vol ! ((k mod 2) * (2 * 2) + k div 2)) [0..<2 * 2 * 2]"
  let ?stacked = "\<lparr>shape = [2, 2, 2, 2], data = ?d' @ ?d'\<rparr>"
  have sh: "shape example_pred_vol = [2, 1, 2, 2]" "(2::nat) \<le> 2"
    "length (data example_pred_vol) = 2 * (2 * 2)"
    by (simp_all add: example_pred_vol_def)
  have rs: "resized_stack (\<lambda>src dsize. Inr src) [example_pred_vol, example_pred_vol] = Inr ?stacked"
    by (rule resized_stack_identical [where cv2_resize = "\<lambda>src dsize. Inr src", OF sh(1,2,2)]) simp
  have mean: "np_mean_axis0 ?stacked = Inr \<lparr>shape = [2, 2, 2], data = ?d'\<rparr>"
    by (rule mean_of_two) simp
  have mv: "np_moveaxis_last_first \<lparr>shape = [2, 2, 2], data = ?d'\<rparr>
                = Inr \<lparr>shape = [2, 2, 2], data = data example_pred_vol\<rparr>"
    by (rule moveaxis_back [OF sh(3)])
  have ex: "np_expand_dims_1 \<lparr>shape = [2, 2, 2], data = data example_pred_vol\<rparr> = Inr example_pred_vol"
    by (simp add: np_expand_dims_1_def example_pred_vol_def)
  have k: "example_summary epsilon (PNum 1) ''study'' = Some (PStr ''WC-1MR1'')"
    by (simp add: example_summary_def)
  show ?thesis
    unfolding combine_study_def
    by (simp only: fst_conv snd_conv rs mean mv ex assms(1,2) sum.case ex_std
          ex_exam_combined [OF assms(3,4)] prod.case)
       (simp add: assms(3) k hashable_def)
qed

lemma ex_first_loop:
  "for_loop (\<lambda>st model_dir. for_loop (process_study epsilon (SigmoidBinarize (1 / 2))) st model_dir)
     initial_stats [[example_study], [example_study]] = Inr (example_stats_models epsilon)"
  by (simp add: ex_process dd_append_def initial_stats_def example_stats_models_def)

lemma ex_second_loop:
  "combine_study (\<lambda>src dsize. Inr src) epsilon (SigmoidBinarize (1 / 2))
     (example_stats_models epsilon) (PStr ''WC-1MR1'', [example_pred_vol, example_pred_vol])
   = Inr (example_stats_final epsilon)"
proof -
  have "combine_study (\<lambda>src dsize. Inr src) epsilon (SigmoidBinarize (1 / 2))
          (example_stats_models epsilon) (PStr ''WC-1MR1'', [example_pred_vol, example_pred_vol]) =
        Inr ((example_stats_models epsilon)
               \<lparr>dicts := (dicts (example_stats_models epsilon))[0 := example_summary epsilon (PNum 1)],
                Combined_metric_data :=
                  AList.update (PStr ''WC-1MR1'') 0
                    (Combined_metric_data (example_stats_models epsilon))\<rparr>)"
    by (rule ex_combine) (simp_all add: dd_first_def example_stats_models_def)
  then show ?thesis
    by (simp add: example_stats_final_def) (simp add: example_stats_models_def)
qed

lemma compute_inference_stats_example:
  "compute_inference_stats (\<lambda>src dsize. Inr src) epsilon [[example_study], [example_study]] =
     Inr (example_stats_final epsilon)"
proof -
  have ap: "all_pred_vol (example_stats_models epsilon) =
              [(PStr ''WC-1MR1'', [example_pred_vol, example_pred_vol])]"
    by (simp add: example_stats_models_def)
  show ?thesis
    unfolding compute_inference_stats_def Let_def ex_first_loop
    by (simp only: sum.case ap for_loop.simps ex_second_loop)
qed


subsection \<open>The example run of two models\<close>

text \<open>
  C5 on the example study (\<open>\<epsilon> = 10\<^sup>-\<^sup>8\<close>): 4 voxels are positive in the prediction, 3
  are 1 in the ground truth, 3 in both, so Dice is \<open>(2 \<cdot> 3 + \<epsilon>) / (4 + 3 + \<epsilon>)\<close>; against
  its own binarization the prediction has Dice 1, and against the empty ground truth
  \<open>\<epsilon> / (4 + \<epsilon>) < 1\<close>.
\<close>

theorem Dice_formula_witness:
  "length (data example_pred_vol) = length (data example_ground_vol) \<and>
   list_all (\<lambda>y. y = 0 \<or> y = 1) (data example_ground_vol) \<and>
   (0::real) \<le> 1 / 10 ^ 8 \<and>
   Dice (SigmoidBinarize (1 / 2)) (1 / 10 ^ 8) 1 example_pred_vol example_ground_vol
     = (2 * 3 + 1 / 10 ^ 8) / (4 + 3 + 1 / 10 ^ 8) \<and>
   list_ex (\<lambda>x. 0 < x) (data example_pred_vol) \<and>
   Dice (SigmoidBinarize (1 / 2)) (1 / 10 ^ 8) 1 example_pred_vol
     (SigmoidBinarize (1 / 2) example_pred_vol) = 1 \<and>
   list_all (\<lambda>y. y = 0) (data example_empty_vol) \<and>
   Dice (SigmoidBinarize (1 / 2)) (1 / 10 ^ 8) 1 example_pred_vol example_empty_vol
     = (1 / 10 ^ 8) / (4 + 1 / 10 ^ 8) \<and>
   Dice (SigmoidBinarize (1 / 2)) (1 / 10 ^ 8) 1 example_pred_vol example_empty_vol < 1 \<and>
   exam_preds_to_stat (1 / 10 ^ 8) [example_attribs] example_pred_vol example_ground_vol
     (SigmoidBinarize (1 / 2)) 0 PNone = Inr ([example_summary (1 / 10 ^ 8) PNone], 0) \<and>
   ([example_summary (1 / 10 ^ 8) PNone] ! 0) ''patient_dice''
     = Some (PNum (Dice (SigmoidBinarize (1 / 2)) (1 / 10 ^ 8) 1 example_pred_vol example_ground_vol))"
proof -
  let ?e = "1 / 10 ^ 8 :: real"
  let ?pp = "SigmoidBinarize (1 / 2)"
  have e: "0 \<le> ?e" by simp
  have l1: "length (data example_pred_vol) = length (data example_ground_vol)"
    and l2: "length (data example_pred_vol) = length (data (?pp example_pred_vol))"
    and l3: "length (data example_pred_vol) = length (data example_empty_vol)"
    by (simp_all add: example_pred_vol_def example_ground_vol_def example_empty_vol_def
        data_SigmoidBinarize)
  have b1: "\<forall>y\<in>set (data example_ground_vol). y = 0 \<or> y = 1"
    and b3: "\<forall>y\<in>set (data example_empty_vol). y = 0 \<or> y = 1"
    and z3: "\<forall>y\<in>set (data example_empty_vol). y = 0"
    and ne: "\<exists>x\<in>set (data example_pred_vol). 0 < x"
    by (simp_all add: example_pred_vol_def example_ground_vol_def example_empty_vol_def)
  have b2: "\<forall>y\<in>set (data (?pp example_pred_vol)). y = 0 \<or> y = 1"
    by (rule SigmoidBinarize_binary)
  have x: "exam_preds_to_stat ?e [example_attribs] example_pred_vol example_ground_vol ?pp 0 PNone
             = Inr ([example_summary ?e PNone], 0)"
    using ex_exam_first [of ?e "[]"] by simp
  have c: "length (filter (\<lambda>(x, y). 0 < x \<and> y = 1) (zip (data example_pred_vol) (data example_ground_vol))) = 3"
    "length (filter (\<lambda>x. 0 < x) (data example_pred_vol)) = 4"
    "length (filter (\<lambda>y. y = 1) (data example_ground_vol)) = 3"
    by (simp_all add: example_pred_vol_def example_ground_vol_def)
  note D1 = Dice_formula [OF l1 b1 e]
  note D2 = Dice_formula [OF l2 b2 e]
  note D3 = Dice_formula [OF l3 b3 e]
  have r1: "Dice ?pp ?e 1 example_pred_vol example_ground_vol = (2 * 3 + ?e) / (4 + 3 + ?e)"
    using D1 [THEN conjunct1] by (simp only: c) simp
  have "exam_preds_to_stat ?e [example_attribs] example_pred_vol example_ground_vol ?pp 0 PNone
          = Inr ([example_summary ?e PNone], 0) \<and> 0 < length [example_attribs] \<longrightarrow>
        ([example_summary ?e PNone] ! 0) ''patient_dice''
          = Some (PNum (Dice ?pp ?e 1 example_pred_vol example_ground_vol))"
    using D1 [THEN conjunct2, THEN conjunct2, THEN conjunct2] by blast
  with x have r1': "([example_summary ?e PNone] ! 0) ''patient_dice''
               = Some (PNum (Dice ?pp ?e 1 example_pred_vol example_ground_vol))"
    by simp
  have r2: "Dice ?pp ?e 1 example_pred_vol (?pp example_pred_vol) = 1"
    using D2 [THEN conjunct2, THEN conjunct1] ne by blast
  have "Dice ?pp ?e 1 example_pred_vol example_empty_vol =
          ?e / (real (length (filter (\<lambda>x. 0 < x) (data example_pred_vol))) + ?e) \<and>
        Dice ?pp ?e 1 example_pred_vol example_empty_vol < 1"
    using D3 [THEN conjunct2, THEN conjunct2, THEN conjunct1] ne z3 by blast
  then have r3: "Dice ?pp ?e 1 example_pred_vol example_empty_vol = ?e / (4 + ?e)"
    "Dice ?pp ?e 1 example_pred_vol example_empty_vol < 1"
    by (simp_all only: c) simp_all
  from e l1 b1 ne z3 x r1 r1' r2 r3 show ?thesis
    unfolding list_all_iff list_ex_iff by blast
qed


text \<open>
  C6, as stated, promises \<open>Pred_stdev = 0\<close> for two models with identical prediction
  volumes.  Two model directories holding the same example study (and an identity
  \<open>cv2.resize\<close>) give a combined summary whose \<open>Pred_stdev\<close> is 1: the standard
  deviation is taken over all voxels of the stack, and the volume has the values 1 and
  -1.
\<close>

theorem compute_inference_stats_stdev_counterexample:
  "compute_inference_stats (\<lambda>src dsize. Inr src) (1 / 10 ^ 8) [[example_study], [example_study]]
     = Inr (example_stats_final (1 / 10 ^ 8)) \<and>
   map_of (Combined_metric_data (example_stats_final (1 / 10 ^ 8))) (PStr ''WC-1MR1'') = Some 0 \<and>
   (dicts (example_stats_final (1 / 10 ^ 8)) ! 0) ''Pred_stdev'' = Some (PNum 1) \<and>
   PNum 1 \<noteq> PNum 0"
  by (simp add: compute_inference_stats_example)
     (simp add: example_stats_final_def example_stats_models_def example_summary_def)

text \<open>
  C6, amended, on the same run: the Dice value of the combined summary is the Dice value
  of each model's own summary, and \<open>Pred_stdev\<close> is the standard deviation of the stack,
  which is not 0 as the volume is not constant.
\<close>

theorem combine_identical_predictions_witness:
  "shape example_pred_vol = [2, 1, 2, 2] \<and> (2::nat) \<le> 2 \<and>
   length (data example_pred_vol) = 2 * (2 * 2) \<and>
   np_stack (preds example_study) = Inr example_pred_vol \<and>
   np_stack (grounds example_study) = Inr example_ground_vol \<and>
   (\<exists>st1. process_study (1 / 10 ^ 8) (SigmoidBinarize (1 / 2)) initial_stats example_study = Inr st1 \<and>
      (dicts st1 ! length (dicts initial_stats)) ''patient_dice''
        = Some (PNum (Dice (SigmoidBinarize (1 / 2)) (1 / 10 ^ 8) 1 example_pred_vol
                        example_ground_vol))) \<and>
   combine_study (\<lambda>src dsize. Inr src) (1 / 10 ^ 8) (SigmoidBinarize (1 / 2))
     (example_stats_models (1 / 10 ^ 8)) (PStr ''WC-1MR1'', [example_pred_vol, example_pred_vol])
     = Inr (example_stats_final (1 / 10 ^ 8)) \<and>
   dd_first (all_ground_vol (example_stats_models (1 / 10 ^ 8))) (PStr ''WC-1MR1'')
     = Inr example_ground_vol \<and>
   dd_first (all_summaries (example_stats_models (1 / 10 ^ 8))) (PStr ''WC-1MR1'') = Inr 0 \<and>
   0 < length (dicts (example_stats_models (1 / 10 ^ 8))) \<and>
   (dicts (example_stats_final (1 / 10 ^ 8)) ! 0) ''patient_dice''
     = Some (PNum (Dice (SigmoidBinarize (1 / 2)) (1 / 10 ^ 8) 1 example_pred_vol
                     example_ground_vol)) \<and>
   (\<exists>stacked. resized_stack (\<lambda>src dsize. Inr src) [example_pred_vol, example_pred_vol] = Inr stacked \<and>
      (dicts (example_stats_final (1 / 10 ^ 8)) ! 0) ''Pred_stdev'' = Some (PNum (np_std stacked)) \<and>
      np_std stacked \<noteq> 0) \<and>
   \<not> (\<exists>c. list_all (\<lambda>x. x = c) (data example_pred_vol))"
proof -
  let ?e = "1 / 10 ^ 8 :: real"
  let ?pp = "SigmoidBinarize (1 / 2)"
  let ?cv = "\<lambda>(src::ndarray) (dsize::nat list). (Inr src :: py_error + ndarray)"
  let ?key = "PStr ''WC-1MR1''"
  have sh: "shape example_pred_vol = [2, 1, 2, 2]" "(2::nat) \<le> 2"
    "length (data example_pred_vol) = 2 * (2 * 2)"
    by (simp_all add: example_pred_vol_def)
  have cv: "\<And>src. take 2 (shape src) = [2, 2] \<Longrightarrow> ?cv src [2, 2] = Inr src" by simp
  obtain st1 where st1: "process_study ?e ?pp initial_stats example_study = Inr st1"
    using ex_process [of ?e initial_stats] by blast
  have cmb: "combine_study ?cv ?e ?pp (example_stats_models ?e)
               (?key, [example_pred_vol, example_pred_vol]) = Inr (example_stats_final ?e)"
    by (rule ex_second_loop)
  have g: "dd_first (all_ground_vol (example_stats_models ?e)) ?key = Inr example_ground_vol"
    and a: "dd_first (all_summaries (example_stats_models ?e)) ?key = Inr 0"
    and lt: "0 < length (dicts (example_stats_models ?e))"
    by (simp_all add: example_stats_models_def dd_first_def)
  have nc: "\<not> (\<exists>c. \<forall>x\<in>set (data example_pred_vol). x = c)"
  proof
    assume "\<exists>c. \<forall>x\<in>set (data example_pred_vol). x = c"
    then obtain c where "\<forall>x\<in>set (data example_pred_vol). x = c" by blast
    then have "(1::real) = c" "(- 1::real) = c" by (simp_all add: example_pred_vol_def)
    then show False by simp
  qed
  note R = combine_identical_predictions [where cv2_resize = ?cv,
      OF sh(1,2,2,3) cv st1 ex_stacks(2,3) cmb g a lt]
  from R [THEN conjunct2, THEN conjunct2] obtain stacked where
    s: "resized_stack ?cv [example_pred_vol, example_pred_vol] = Inr stacked"
      "(dicts (example_stats_final ?e) ! 0) ''Pred_stdev'' = Some (PNum (np_std stacked))"
      "np_std stacked = 0 \<longleftrightarrow> (\<exists>c. \<forall>x\<in>set (data example_pred_vol). x = c)"
    by blast
  from s(3) nc have "np_std stacked \<noteq> 0" by simp
  with s(1,2) have r3: "\<exists>stacked. resized_stack ?cv [example_pred_vol, example_pred_vol] = Inr stacked \<and>
       (dicts (example_stats_final ?e) ! 0) ''Pred_stdev'' = Some (PNum (np_std stacked)) \<and>
       np_std stacked \<noteq> 0"
    by blast
  note r = R [THEN conjunct1] R [THEN conjunct2, THEN conjunct1] r3
  have nc': "\<not> (\<exists>c. list_all (\<lambda>x. x = c) (data example_pred_vol))"
    using nc unfolding list_all_iff .
  have p: "\<exists>st1. process_study ?e ?pp initial_stats example_study = Inr st1 \<and>
      (dicts st1 ! length (dicts initial_stats)) ''patient_dice''
        = Some (PNum (Dice ?pp ?e 1 example_pred_vol example_ground_vol))"
    using st1 r(1) by blast
  show ?thesis
    by (intro conjI sh ex_stacks(2,3) p cmb g a lt r(2) r3 nc')
qed

text \<open>
  C8, as stated, has an empty study skipped and a study without attributes fail with a
  MissingMetadataError.  A model directory whose first study directory is empty ends
  the run with ValueError, the study after it never processed; one whose first study
  has its arrays but no attribute file ends it with IndexError.
\<close>

theorem compute_inference_stats_empty_study_counterexample:
  "compute_inference_stats (\<lambda>src dsize. Inr src) (1 / 10 ^ 8) [[example_empty_study, example_study]]
     = Inl ValueError \<and>
   compute_inference_stats (\<lambda>src dsize. Inr src) (1 / 10 ^ 8)
     [[example_study\<lparr>attribs := []\<rparr>, example_study]] = Inl IndexError"
proof -
  have i: "imgs example_empty_study = []" by (simp add: example_empty_study_def)
  have n: "attribs (example_study\<lparr>attribs := []\<rparr>) = []"
    "np_stack (imgs (example_study\<lparr>attribs := []\<rparr>))
       = Inr \<lparr>shape = [2, 1, 2, 2], data = [0, 0, 0, 0, 0, 0, 0, 0]\<rparr>"
    "np_stack (preds (example_study\<lparr>attribs := []\<rparr>)) = Inr example_pred_vol"
    "np_stack (grounds (example_study\<lparr>attribs := []\<rparr>)) = Inr example_ground_vol"
    by (simp_all add: ex_stacks)
  show ?thesis
    by (simp add: compute_inference_stats_def Let_def process_study_no_imgs [OF i]
          process_study_no_attribs_IndexError [OF n])
qed

text \<open>
  C8, amended, on concrete input: a run whose second model holds the empty study after the
  example study ends with an exception; the empty study raises ValueError, the example
  study without its attribute files IndexError.
\<close>

theorem compute_inference_stats_aborts_witness:
  "[example_study, example_empty_study] \<in> set [[example_study], [example_study, example_empty_study]] \<and>
   example_empty_study \<in> set [example_study, example_empty_study] \<and>
   (imgs example_empty_study = [] \<or> attribs example_empty_study = []) \<and>
   (\<exists>e. compute_inference_stats (\<lambda>src dsize. Inr src) (1 / 10 ^ 8)
          [[example_study], [example_study, example_empty_study]] = Inl e) \<and>
   process_study (1 / 10 ^ 8) (SigmoidBinarize (1 / 2)) initial_stats example_empty_study
     = Inl ValueError \<and>
   attribs (example_study\<lparr>attribs := []\<rparr>) = [] \<and>
   np_stack (imgs (example_study\<lparr>attribs := []\<rparr>))
     = Inr \<lparr>shape = [2, 1, 2, 2], data = [0, 0, 0, 0, 0, 0, 0, 0]\<rparr> \<and>
   np_stack (preds (example_study\<lparr>attribs := []\<rparr>)) = Inr example_pred_vol \<and>
   np_stack (grounds (example_study\<lparr>attribs := []\<rparr>)) = Inr example_ground_vol \<and>
   process_study (1 / 10 ^ 8) (SigmoidBinarize (1 / 2)) initial_stats
     (example_study\<lparr>attribs := []\<rparr>) = Inl IndexError"
proof -
  let ?cv = "\<lambda>(src::ndarray) (dsize::nat list). (Inr src :: py_error + ndarray)"
  let ?na = "example_study\<lparr>attribs := []\<rparr>"
  have m1: "[example_study, example_empty_study] \<in> set [[example_study], [example_study, example_empty_study]]"
    and m2: "example_empty_study \<in> set [example_study, example_empty_study]"
    and h: "imgs example_empty_study = [] \<or> attribs example_empty_study = []"
    and i: "imgs example_empty_study = []"
    by (simp_all add: example_empty_study_def)
  have n1: "[?na] \<in> set [[?na]]" and n2: "?na \<in> set [?na]"
    and n3: "imgs ?na = [] \<or> attribs ?na = []" and n4: "attribs ?na = []"
    and n5: "np_stack (imgs ?na) = Inr \<lparr>shape = [2, 1, 2, 2], data = [0, 0, 0, 0, 0, 0, 0, 0]\<rparr>"
    and n6: "np_stack (preds ?na) = Inr example_pred_vol"
    and n7: "np_stack (grounds ?na) = Inr example_ground_vol"
    by (simp_all add: ex_stacks)
  from compute_inference_stats_aborts [OF m1 m2 h, of ?cv "1 / 10 ^ 8"] i
  have r1: "\<exists>e. compute_inference_stats ?cv (1 / 10 ^ 8)
              [[example_study], [example_study, example_empty_study]] = Inl e"
    "process_study (1 / 10 ^ 8) (SigmoidBinarize (1 / 2)) initial_stats example_empty_study
       = Inl ValueError"
    by blast+
  from compute_inference_stats_aborts [OF n1 n2 n3, of ?cv "1 / 10 ^ 8"] n4 n5 n6 n7
  have r2: "process_study (1 / 10 ^ 8) (SigmoidBinarize (1 / 2)) initial_stats ?na = Inl IndexError"
    by blast
  show ?thesis
    by (intro conjI m1 m2 h r1 n4 n5 n6 n7 r2)
qed

text \<open>
  C9 on the example: \<open>exam_preds_to_stat\<close> returns the reference 0 it was given, the
  key \<open>vox_vol\<close> keeps its value and the six keys are added; in the run of two models,
  the first model's summary (reference 0 of \<open>all_summaries\<close>) has \<open>Pred_stdev\<close> None
  before the combination and 1 after it, the second model's summary is unchanged.
\<close>

theorem exam_preds_to_stat_in_place_witness:
  "exam_preds_to_stat (1 / 10 ^ 8) [example_attribs] example_pred_vol example_ground_vol
     (SigmoidBinarize (1 / 2)) 0 PNone = Inr ([example_summary (1 / 10 ^ 8) PNone], 0) \<and>
   (0::nat) < length [example_attribs] \<and>
   combine_study (\<lambda>src dsize. Inr src) (1 / 10 ^ 8) (SigmoidBinarize (1 / 2))
     (example_stats_models (1 / 10 ^ 8)) (PStr ''WC-1MR1'', [example_pred_vol, example_pred_vol])
     = Inr (example_stats_final (1 / 10 ^ 8)) \<and>
   map_of (all_summaries (example_stats_models (1 / 10 ^ 8))) (PStr ''WC-1MR1'') = Some [0, 1] \<and>
   list_all (\<lambda>x. x < length (dicts (example_stats_models (1 / 10 ^ 8)))) [0, 1] \<and>
   ([example_summary (1 / 10 ^ 8) PNone] ! 0) ''vox_vol'' = ([example_attribs] ! 0) ''vox_vol'' \<and>
   dom ([example_summary (1 / 10 ^ 8) PNone] ! 0) =
     dom ([example_attribs] ! 0) \<union>
       {''TKV_GT'', ''TKV_Pred'', ''patient_dice'', ''study'', ''scale_factor'', ''Pred_stdev''} \<and>
   (dicts (example_stats_models (1 / 10 ^ 8)) ! 0) ''Pred_stdev'' = Some PNone \<and>
   all_summaries (example_stats_final (1 / 10 ^ 8)) = all_summaries (example_stats_models (1 / 10 ^ 8)) \<and>
   map_of (Combined_metric_data (example_stats_final (1 / 10 ^ 8))) (PStr ''WC-1MR1'') = Some 0 \<and>
   (dicts (example_stats_final (1 / 10 ^ 8)) ! 0) ''Pred_stdev'' = Some (PNum 1) \<and>
   dicts (example_stats_final (1 / 10 ^ 8)) ! 1 = dicts (example_stats_models (1 / 10 ^ 8)) ! 1"
proof -
  let ?e = "1 / 10 ^ 8 :: real"
  let ?pp = "SigmoidBinarize (1 / 2)"
  let ?cv = "\<lambda>(src::ndarray) (dsize::nat list). (Inr src :: py_error + ndarray)"
  let ?key = "PStr ''WC-1MR1''"
  have x: "exam_preds_to_stat ?e [example_attribs] example_pred_vol example_ground_vol ?pp 0 PNone
             = Inr ([example_summary ?e PNone], 0)"
    using ex_exam_first [of ?e "[]"] by simp
  have len: "(0::nat) < length [example_attribs]" by simp
  have cmb: "combine_study ?cv ?e ?pp (example_stats_models ?e)
               (?key, [example_pred_vol, example_pred_vol]) = Inr (example_stats_final ?e)"
    by (rule ex_second_loop)
  have refs: "map_of (all_summaries (example_stats_models ?e)) ?key = Some [0, 1]"
    and valid: "list_all (\<lambda>x. x < length (dicts (example_stats_models ?e))) [0, 1]"
    and before: "(dicts (example_stats_models ?e) ! 0) ''Pred_stdev'' = Some PNone"
    by (simp_all add: example_stats_models_def example_summary_def)
  have v: "\<forall>refs. map_of (all_summaries (example_stats_models ?e))
                   (fst (?key, [example_pred_vol, example_pred_vol])) = Some refs \<longrightarrow>
             list_all (\<lambda>x. x < length (dicts (example_stats_models ?e))) refs"
    using refs valid by simp
  note T = exam_preds_to_stat_in_place [OF x len cmb v]
  have k: "''vox_vol'' \<notin> {''TKV_GT'', ''TKV_Pred'', ''patient_dice'', ''study'', ''scale_factor'',
                          ''Pred_stdev''}"
    by simp
  have t1: "([example_summary ?e PNone] ! 0) ''vox_vol'' = ([example_attribs] ! 0) ''vox_vol''"
    using T [THEN conjunct2, THEN conjunct2, THEN conjunct2, THEN conjunct1, rule_format, OF k] .
  have t2: "dom ([example_summary ?e PNone] ! 0) =
     dom ([example_attribs] ! 0) \<union>
       {''TKV_GT'', ''TKV_Pred'', ''patient_dice'', ''study'', ''scale_factor'', ''Pred_stdev''}"
    using T [THEN conjunct2, THEN conjunct2, THEN conjunct2, THEN conjunct2, THEN conjunct1] .
  have after: "all_summaries (example_stats_final ?e) = all_summaries (example_stats_models ?e)"
    "map_of (Combined_metric_data (example_stats_final ?e)) ?key = Some 0"
    "(dicts (example_stats_final ?e) ! 0) ''Pred_stdev'' = Some (PNum 1)"
    "dicts (example_stats_final ?e) ! 1 = dicts (example_stats_models ?e) ! 1"
    by (simp_all add: example_stats_final_def example_stats_models_def example_summary_def)
  show ?thesis
    by (intro conjI x len cmb refs valid t1 t2 before after)
qed

end
